theory Spec2Isabelle
  imports Main "HOL-Library.Word"
begin

section \<open>The reflect package, as far as type.go uses it\<close>

text \<open>
  type.go inspects its input through Go's reflect package. The package is a library,
  not part of the repository; this section models, from the package documentation, the
  operations type.go calls. A reflect.Value is either the zero Value (IsValid is false)
  or a type, two flags and the data it holds.
\<close>

subsection \<open>Kinds and types\<close>

datatype Kind =
    reflect_Invalid | reflect_Bool
  | reflect_Int | reflect_Int8 | reflect_Int16 | reflect_Int32 | reflect_Int64
  | reflect_Uint | reflect_Uint8 | reflect_Uint16 | reflect_Uint32 | reflect_Uint64
  | reflect_Uintptr
  | reflect_Float32 | reflect_Float64 | reflect_Complex64 | reflect_Complex128
  | reflect_Array | reflect_Chan | reflect_Func | reflect_Interface | reflect_Map
  | reflect_Ptr | reflect_Slice | reflect_String | reflect_Struct | reflect_UnsafePointer

text \<open>
  A reflect.Type: a predeclared type (\<open>bool\<close>, \<open>int\<close>, \<open>uint8\<close>, \<open>string\<close>, ...), the
  composite types whose parts type.go looks at (\<open>*T\<close>, \<open>[]T\<close>, \<open>[n]T\<close>, \<open>map[K]V\<close>),
  a type literal of another kind (struct, interface, func, chan) given by its text, or
  a defined type \<open>type name underlying\<close>. Two types are identical iff the terms are equal.
\<close>

datatype Type =
    Predeclared Kind
  | PtrTo Type
  | SliceOf Type
  | ArrayOf nat Type
  | MapOf Type Type
  | Literal Kind string
  | Defined string Type

text \<open>\<open>typ.Kind()\<close>: a defined type has the kind of its underlying type.\<close>

fun Type_Kind :: "Type \<Rightarrow> Kind" where
  "Type_Kind (Predeclared k) = k"
| "Type_Kind (PtrTo t) = reflect_Ptr"
| "Type_Kind (SliceOf t) = reflect_Slice"
| "Type_Kind (ArrayOf n t) = reflect_Array"
| "Type_Kind (MapOf k t) = reflect_Map"
| "Type_Kind (Literal k s) = k"
| "Type_Kind (Defined n t) = Type_Kind t"

text \<open>
  \<open>typ.Elem()\<close> and \<open>typ.Key()\<close>. Go panics when the type's kind has no element (or
  key) type; type.go calls them only after it has checked the kind, so on a type whose
  outermost constructor is not a container the model returns the type itself.
\<close>

fun Type_Elem :: "Type \<Rightarrow> Type" where
  "Type_Elem (PtrTo t) = t"
| "Type_Elem (SliceOf t) = t"
| "Type_Elem (ArrayOf n t) = t"
| "Type_Elem (MapOf k t) = t"
| "Type_Elem (Defined n t) = Type_Elem t"
| "Type_Elem t = t"

fun Type_Key :: "Type \<Rightarrow> Type" where
  "Type_Key (MapOf k t) = k"
| "Type_Key (Defined n t) = Type_Key t"
| "Type_Key t = t"

subsection \<open>Values\<close>

text \<open>
  The two flags of a Value that type.go can observe: \<open>flagAddr\<close> (CanAddr) and
  \<open>flagRO\<close> (the Value was reached through an unexported struct field; CanInterface
  is then false).
\<close>

record flag =
  flagAddr :: bool
  flagRO :: bool

type_synonym byte = "8 word"

text \<open>
  The data behind a Value. Integers are held as the 64-bit reading that \<open>Int()\<close> and
  \<open>Uint()\<close> return, floating-point numbers as the IEEE 754 bits of the float64 that
  \<open>Float()\<close> returns. A pointer holds the data of the variable it points to (\<open>None\<close>
  when nil), an interface the dynamic type and data of its content (\<open>None\<close> when nil),
  a slice or array its elements, a map its entries in the order the iteration visits
  them. A struct holds, per field index, the Value that a field accessor yields. Values
  of the remaining kinds (complex numbers, functions, channels, unsafe pointers) are
  opaque.
\<close>

datatype Value = Zero_Value | Value Type flag data
and data =
    D_bool bool
  | D_int "64 word"
  | D_uint "64 word"
  | D_float "64 word"
  | D_string string
  | D_ptr "data option"
  | D_iface "(Type \<times> data) option"
  | D_seq "data list"
  | D_map "(data \<times> data) list"
  | D_struct "Value list"
  | D_opaque

datatype panic =
    ValueError string Kind
  | TypeAssertionError
  | typesMustMatch Type Type
  | flagRO_panic string
  | method_panic string

definition IsValid :: "Value \<Rightarrow> bool" where
  "IsValid v = (v \<noteq> Zero_Value)"

text \<open>\<open>v.Type()\<close> panics on the zero Value.\<close>

definition Value_Type :: "Value \<Rightarrow> panic + Type" where
  "Value_Type v =
     (case v of
        Zero_Value \<Rightarrow> Inl (ValueError ''reflect.Value.Type'' reflect_Invalid)
      | Value t f d \<Rightarrow> Inr t)"

text \<open>\<open>v.Kind()\<close> is Invalid on the zero Value.\<close>

definition Value_Kind :: "Value \<Rightarrow> Kind" where
  "Value_Kind v = (case v of Zero_Value \<Rightarrow> reflect_Invalid | Value t f d \<Rightarrow> Type_Kind t)"

definition CanAddr :: "Value \<Rightarrow> bool" where
  "CanAddr v = (case v of Zero_Value \<Rightarrow> False | Value t f d \<Rightarrow> flagAddr f)"

text \<open>
  \<open>v.CanInterface()\<close> panics on the zero Value; type.go calls it on \<open>val\<close> after
  \<open>val.Type()\<close> has returned and on the result of \<open>Addr\<close>, never on the zero Value.
\<close>

definition CanInterface :: "Value \<Rightarrow> bool" where
  "CanInterface v = (case v of Zero_Value \<Rightarrow> False | Value t f d \<Rightarrow> \<not> flagRO f)"

text \<open>
  \<open>v.Addr()\<close>: a pointer to \<open>v\<close>; the pointer is not addressable and inherits the
  read-only flag. It panics unless \<open>CanAddr\<close>, which type.go checks before the call.
\<close>

definition Addr :: "Value \<Rightarrow> Value" where
  "Addr v =
     (case v of
        Zero_Value \<Rightarrow> Zero_Value
      | Value t f d \<Rightarrow> Value (PtrTo t) \<lparr>flagAddr = False, flagRO = flagRO f\<rparr> (D_ptr (Some d)))"

text \<open>
  \<open>v.Elem()\<close> on a pointer or an interface: the zero Value when \<open>v\<close> is nil; the
  pointed-to variable, addressable; or the content of the interface, with its dynamic
  type, not addressable. The read-only flag is inherited. On other kinds Go panics;
  type.go calls Elem only on the kinds Ptr and Interface.
\<close>

definition Value_Elem :: "Value \<Rightarrow> Value" where
  "Value_Elem v =
     (case v of
        Value t f (D_ptr (Some d)) \<Rightarrow> Value (Type_Elem t) \<lparr>flagAddr = True, flagRO = flagRO f\<rparr> d
      | Value t f (D_iface (Some (dt, d))) \<Rightarrow> Value dt \<lparr>flagAddr = False, flagRO = flagRO f\<rparr> d
      | _ \<Rightarrow> Zero_Value)"

definition IsNil :: "Value \<Rightarrow> bool" where
  "IsNil v =
     (case v of
        Value t f (D_ptr None) \<Rightarrow> True
      | Value t f (D_iface None) \<Rightarrow> True
      | _ \<Rightarrow> False)"

text \<open>
  The scalar readers. Each panics in Go on a Value of another kind; type.go calls each
  one inside the case of a switch on the kind.
\<close>

definition Value_String :: "Value \<Rightarrow> string" where
  "Value_String v = (case v of Value t f (D_string s) \<Rightarrow> s | _ \<Rightarrow> [])"

definition Value_Int :: "Value \<Rightarrow> 64 word" where
  "Value_Int v = (case v of Value t f (D_int i) \<Rightarrow> i | _ \<Rightarrow> 0)"

definition Value_Uint :: "Value \<Rightarrow> 64 word" where
  "Value_Uint v = (case v of Value t f (D_uint u) \<Rightarrow> u | _ \<Rightarrow> 0)"

definition Value_Float :: "Value \<Rightarrow> 64 word" where
  "Value_Float v = (case v of Value t f (D_float x) \<Rightarrow> x | _ \<Rightarrow> 0)"

definition Value_Bool :: "Value \<Rightarrow> bool" where
  "Value_Bool v = (case v of Value t f (D_bool b) \<Rightarrow> b | _ \<Rightarrow> False)"

text \<open>
  The comparison \<open>x == 0\<close> of a float64: true of positive and of negative zero, that
  is, when all bits but the sign bit are clear.
\<close>

definition float64_eq_zero :: "64 word \<Rightarrow> bool" where
  "float64_eq_zero x = (take_bit 63 x = 0)"

text \<open>\<open>v.Len()\<close> of an array, slice, map or string.\<close>

definition Len :: "Value \<Rightarrow> nat" where
  "Len v =
     (case v of
        Value t f (D_seq xs) \<Rightarrow> length xs
      | Value t f (D_map es) \<Rightarrow> length es
      | Value t f (D_string s) \<Rightarrow> length s
      | _ \<Rightarrow> 0)"

text \<open>
  \<open>v.Index(i)\<close> of a slice or array, for \<open>i\<close> below \<open>v.Len()\<close> (Go panics beyond it;
  the loop of type.go stays below). An element of a slice is addressable, an element of
  an array is addressable iff the array is. The read-only flag is inherited.
\<close>

definition Index :: "Value \<Rightarrow> nat \<Rightarrow> Value" where
  "Index v i =
     (case v of
        Value t f (D_seq xs) \<Rightarrow>
          if i < length xs
          then Value (Type_Elem t)
                 \<lparr>flagAddr = (Type_Kind t = reflect_Slice \<or> flagAddr f), flagRO = flagRO f\<rparr>
                 (xs ! i)
          else Zero_Value
      | _ \<Rightarrow> Zero_Value)"

text \<open>
  \<open>v.MapKeys()\<close> and \<open>v.MapIndex(key)\<close>: the keys in iteration order, and the value
  stored under a key (the zero Value when there is none). Neither is addressable.
\<close>

definition MapKeys :: "Value \<Rightarrow> Value list" where
  "MapKeys v =
     (case v of
        Value t f (D_map es) \<Rightarrow>
          map (\<lambda>(k, e). Value (Type_Key t) \<lparr>flagAddr = False, flagRO = flagRO f\<rparr> k) es
      | _ \<Rightarrow> [])"

definition MapIndex :: "Value \<Rightarrow> Value \<Rightarrow> Value" where
  "MapIndex v key =
     (case (v, key) of
        (Value t f (D_map es), Value kt kf k) \<Rightarrow>
          (case map_of es k of
             None \<Rightarrow> Zero_Value
           | Some e \<Rightarrow>
               Value (Type_Elem t) \<lparr>flagAddr = False, flagRO = (flagRO f \<or> flagRO kf)\<rparr> e)
      | _ \<Rightarrow> Zero_Value)"

text \<open>
  The bytes of a sequence whose elements have kind Uint8, as both \<open>v.Bytes()\<close> and
  \<open>reflect.Copy\<close> read them.
\<close>

definition byte_of :: "data \<Rightarrow> byte" where
  "byte_of d = (case d of D_uint u \<Rightarrow> ucast u | _ \<Rightarrow> 0)"

definition elems :: "Value \<Rightarrow> data list" where
  "elems v = (case v of Value t f (D_seq xs) \<Rightarrow> xs | _ \<Rightarrow> [])"

text \<open>
  \<open>v.Bytes()\<close>: the underlying bytes of a slice of bytes or of an addressable array
  of bytes (element kind Uint8). type.go calls it under exactly these conditions.
\<close>

definition Bytes :: "Value \<Rightarrow> byte list" where
  "Bytes v = map byte_of (elems v)"

text \<open>
  \<open>reflect.Copy(reflect.ValueOf(bytes), src)\<close> into a fresh \<open>[]byte\<close> of length
  \<open>src.Len()\<close>; the result is the content of \<open>bytes\<close> afterwards. Copy panics when
  \<open>src\<close> was obtained through an unexported field, and when the element types of
  destination and source are not identical: the destination's is \<open>uint8\<close>.
\<close>

definition Copy_to_bytes :: "Value \<Rightarrow> panic + byte list" where
  "Copy_to_bytes src =
     (case src of
        Zero_Value \<Rightarrow> Inl (ValueError ''reflect.Copy'' reflect_Invalid)
      | Value t f d \<Rightarrow>
          if flagRO f then Inl (flagRO_panic ''reflect.Copy'')
          else if Type_Elem t \<noteq> Predeclared reflect_Uint8
          then Inl (typesMustMatch (Predeclared reflect_Uint8) (Type_Elem t))
          else Inr (map byte_of (elems src)))"

section \<open>type.go\<close>

subsection \<open>isEmptyValue\<close>

definition isEmptyValue :: "Value \<Rightarrow> bool" where
  "isEmptyValue v =
     (let k = Value_Kind v in
      if k \<in> {reflect_Array, reflect_Map, reflect_Slice, reflect_String} then Len v = 0
      else if k = reflect_Bool then \<not> Value_Bool v
      else if k \<in> {reflect_Int, reflect_Int8, reflect_Int16, reflect_Int32, reflect_Int64}
      then Value_Int v = 0
      else if k \<in> {reflect_Uint, reflect_Uint8, reflect_Uint16, reflect_Uint32, reflect_Uint64,
                    reflect_Uintptr}
      then Value_Uint v = 0
      else if k \<in> {reflect_Float32, reflect_Float64} then float64_eq_zero (Value_Float v)
      else if k \<in> {reflect_Interface, reflect_Ptr} then IsNil v
      else False)"

subsection \<open>The intermediate tree\<close>

datatype plistKind = Invalid | Dictionary | Array | String | Integer | Real | Boolean | Data

text \<open>
  A \<open>plistValue\<close> is a kind and a \<open>value interface{}\<close>. The payload type lists the
  dynamic types that type.go stores there: \<open>map[string]*plistValue\<close>,
  \<open>[]*plistValue\<close>, \<open>string\<close>, \<open>[]byte\<close>, \<open>int64\<close>, \<open>uint64\<close>, \<open>float64\<close> (its
  bits) and \<open>bool\<close>. A \<open>*plistValue\<close> is an option: \<open>None\<close> is nil.
\<close>

datatype plistValue = plistValue (kind: plistKind) (payload: payload)
and payload =
    V_map "string \<Rightarrow> plistValue option option"
  | V_slice "plistValue option list"
  | V_string string
  | V_bytes "byte list"
  | V_int64 "64 word"
  | V_uint64 "64 word"
  | V_float64 "64 word"
  | V_bool bool

text \<open>
  Errors: \<open>UnknownTypeError\<close> with the offending type, the value of \<open>errors.New\<close> with
  its text, and an error that a MarshalText method returned, given by its message. The
  last is a constructor of its own: an error value that type.go makes is identical to
  none that is made elsewhere.
\<close>

datatype error = UnknownTypeError Type | errorString string | TextMarshalerError string

text \<open>
  What a call does: it panics, or it returns the pair \<open>(*plistValue, error)\<close>.
\<close>

datatype outcome = Panic panic | Return "plistValue option" "error option"

subsection \<open>What type.go takes from elsewhere\<close>

text \<open>
  Modelled from the spec: the Type-Info Provider (\<open>getTypeInfo\<close>, \<open>typeInfo\<close>,
  \<open>fieldInfo\<close> and its accessor \<open>value\<close>) is not among the sources. The spec gives it
  as "an ordered list of field descriptors for the record's type; each descriptor
  supplies an export name, an omit-if-empty flag, and an accessor that extracts the
  field's current value from a given instance". The accessor of a descriptor is modelled
  by a field index into the struct: it yields the Value the struct holds there, and the
  zero Value when the struct holds none.
\<close>

record fieldInfo =
  idx :: nat
  name :: string
  omitEmpty :: bool

datatype typeInfo = typeInfo (fields: "fieldInfo list")

definition fieldInfo_value :: "fieldInfo \<Rightarrow> Value \<Rightarrow> Value" where
  "fieldInfo_value finfo v =
     (case v of
        Value t f (D_struct fs) \<Rightarrow> if idx finfo < length fs then fs ! idx finfo else Zero_Value
      | _ \<Rightarrow> Zero_Value)"

text \<open>
  An \<open>encoding.TextMarshaler\<close> is an interface value: a dynamic type and its data.
  The environment of a conversion holds what the program around type.go decides: which
  types implement which interface (the method sets), what a call of the MarshalText
  method of a value does, and the provider's table (\<open>getTypeInfo\<close>, whose error result
  type.go discards). A call of MarshalText returns the text and the error (its message,
  or \<open>None\<close> for nil), or it panics (\<open>method_panic\<close>): so does the call of a method
  with a value receiver through a nil pointer.
\<close>

type_synonym TextMarshaler = "Type \<times> data"

record env =
  Implements :: "Type \<Rightarrow> Type \<Rightarrow> bool"
  MarshalText :: "TextMarshaler \<Rightarrow> panic + byte list \<times> string option"
  getTypeInfo :: "Type \<Rightarrow> typeInfo"

definition textMarshalerType :: Type where
  "textMarshalerType =
     Defined ''encoding.TextMarshaler''
       (Literal reflect_Interface ''interface { MarshalText() ([]byte, error) }'')"

text \<open>
  \<open>v.Interface().(encoding.TextMarshaler)\<close>, for a Value whose type implements the
  interface: the Value's content as an interface value. \<open>Interface()\<close> of a Value of
  kind Interface returns what the interface holds, and the type assertion panics when
  that is nil.
\<close>

definition Interface_TextMarshaler :: "Value \<Rightarrow> panic + TextMarshaler" where
  "Interface_TextMarshaler v =
     (case v of
        Zero_Value \<Rightarrow> Inl (ValueError ''reflect.Value.Interface'' reflect_Invalid)
      | Value t f d \<Rightarrow>
          if Type_Kind t = reflect_Interface
          then (case d of D_iface (Some m) \<Rightarrow> Inr m | _ \<Rightarrow> Inl TypeAssertionError)
          else Inr (t, d))"

subsection \<open>stringMarshalableToPlistValue\<close>

definition stringMarshalableToPlistValue :: "env \<Rightarrow> TextMarshaler \<Rightarrow> outcome" where
  "stringMarshalableToPlistValue env marshalable =
     (case MarshalText env marshalable of
        Inl p \<Rightarrow> Panic p
      | Inr (s, Some err) \<Rightarrow> Return None (Some (TextMarshalerError err))
      | Inr (s, None) \<Rightarrow> Return (Some (plistValue String (V_bytes s))) None)"

subsection \<open>valueToPlistValue and structToPlistValue\<close>

text \<open>
  Lines 92 to 101, the check for a text marshaler: \<open>Some\<close> of the outcome when one of
  the two \<open>if\<close> statements returns, \<open>None\<close> when control passes on.
\<close>

definition checkTextMarshaler :: "env \<Rightarrow> Value \<Rightarrow> Type \<Rightarrow> outcome option" where
  "checkTextMarshaler env val typ =
     (if CanInterface val \<and> Implements env typ textMarshalerType
      then Some (case Interface_TextMarshaler val of
                   Inl p \<Rightarrow> Panic p
                 | Inr m \<Rightarrow> stringMarshalableToPlistValue env m)
      else if CanAddr val
      then (let pv = Addr val in
            if CanInterface pv
            then (case Value_Type pv of
                    Inl p \<Rightarrow> Some (Panic p)
                  | Inr pt \<Rightarrow>
                      if Implements env pt textMarshalerType
                      then Some (case Interface_TextMarshaler pv of
                                   Inl p \<Rightarrow> Panic p
                                 | Inr m \<Rightarrow> stringMarshalableToPlistValue env m)
                      else None)
            else None)
      else None)"

text \<open>
  Lines 103 to 107, the descent into a pointer or interface: the new \<open>val\<close> and \<open>typ\<close>,
  or the panic of \<open>val.Type()\<close>.
\<close>

definition descend :: "Value \<Rightarrow> Type \<Rightarrow> panic + Value \<times> Type" where
  "descend val typ =
     (if Type_Kind typ = reflect_Ptr \<or> Type_Kind typ = reflect_Interface
      then (case Value_Type (Value_Elem val) of
              Inl p \<Rightarrow> Inl p
            | Inr t \<Rightarrow> Inr (Value_Elem val, t))
      else Inr (val, typ))"

text \<open>
  A loop over a list with a body that may leave the function: the body yields \<open>Inl\<close> of
  the function's outcome (a \<open>return\<close> or a panic inside the loop) or \<open>Inr\<close> of the
  loop's variables for the next round.
\<close>

fun for_range :: "('a \<Rightarrow> 's \<Rightarrow> outcome + 's) \<Rightarrow> 'a list \<Rightarrow> 's \<Rightarrow> outcome + 's" where
  "for_range body [] s = Inr s"
| "for_range body (x # xs) s =
     (case body x s of Inl r \<Rightarrow> Inl r | Inr s' \<Rightarrow> for_range body xs s')"

lemma for_range_cong [fundef_cong]:
  "xs = ys \<Longrightarrow> s = t \<Longrightarrow> (\<And>x u. x \<in> set ys \<Longrightarrow> f x u = g x u) \<Longrightarrow>
   for_range f xs s = for_range g ys t"
proof (induction ys arbitrary: xs s t)
  case Nil
  then show ?case by simp
next
  case (Cons y ys)
  then show ?case by (auto split: sum.splits)
qed

text \<open>
  The statements after a call \<open>v, err := valueToPlistValue(...)\<close> in a loop: a panic
  and a non-nil \<open>err\<close> leave the function, otherwise \<open>store v\<close> updates \<open>subvalues\<close>.
\<close>

definition store_or_return :: "outcome \<Rightarrow> (plistValue option \<Rightarrow> 's) \<Rightarrow> outcome + 's" where
  "store_or_return r store =
     (case r of
        Panic p \<Rightarrow> Inl (Panic p)
      | Return v (Some err) \<Rightarrow> Inl (Return None (Some err))
      | Return v None \<Rightarrow> Inr (store v))"

text \<open>Every recursive call is on a part of the Value: the size decreases.\<close>

lemma size_descend: "descend val typ = Inr (val', typ') \<Longrightarrow> size val' \<le> size val"
  by (auto simp: descend_def Value_Elem_def Value_Type_def
           split: if_splits sum.splits Value.splits data.splits option.splits)

lemma size_nth_less: "i < length xs \<Longrightarrow> f (xs ! i) < Suc (size_list f xs)"
  using size_list_estimation'[of "xs ! i" xs "f (xs ! i)" f] by simp

lemma size_Index: "i < Len v \<Longrightarrow> size (Index v i) < size v"
  using size_nth_less[of i _ "size :: data \<Rightarrow> nat"]
  by (auto simp: Index_def Len_def split: Value.splits data.splits)

lemma size_map_of: "map_of es k = Some e \<Longrightarrow> f e < Suc (size_list (size_prod g f) es)"
  by (induction es) (auto split: if_splits)

lemma size_MapIndex: "keyv \<in> set (MapKeys v) \<Longrightarrow> size (MapIndex v keyv) < size v"
  using size_map_of[where f = "size :: data \<Rightarrow> nat" and g = "size :: data \<Rightarrow> nat"]
  by (auto simp: MapIndex_def MapKeys_def split: Value.splits data.splits option.splits)

lemma size_fieldInfo_value:
  "IsValid (fieldInfo_value finfo v) \<Longrightarrow> size (fieldInfo_value finfo v) < size v"
  using size_nth_less[of "idx finfo" _ "size :: Value \<Rightarrow> nat"]
  by (auto simp: fieldInfo_value_def IsValid_def less_Suc_eq split: Value.splits data.splits if_splits)

text \<open>
  The two functions call each other. In \<open>valueToPlistValue\<close> the \<open>switch\<close> on the
  kind is an option: \<open>Some\<close> of the outcome of the case that returns, \<open>None\<close> when
  control passes to the statement after the switch, the last \<open>return\<close> of the function.
\<close>

function valueToPlistValue :: "env \<Rightarrow> Value \<Rightarrow> outcome"
  and structToPlistValue :: "env \<Rightarrow> Type \<Rightarrow> Value \<Rightarrow> outcome" where
  "valueToPlistValue env val =
     (case Value_Type val of
        Inl p \<Rightarrow> Panic p
      | Inr typ \<Rightarrow>
          if \<not> IsValid val then Return None None
          else
            (case checkTextMarshaler env val typ of
               Some r \<Rightarrow> r
             | None \<Rightarrow>
                 (case descend val typ of
                    Inl p \<Rightarrow> Panic p
                  | Inr (val', typ') \<Rightarrow>
                      if Type_Kind typ' = reflect_Struct then structToPlistValue env typ' val'
                      else
                        (case
                           (if Type_Kind typ' = reflect_String
                            then Some (Return (Some (plistValue String (V_string (Value_String val')))) None)
                            else if Type_Kind typ' \<in> {reflect_Int, reflect_Int8, reflect_Int16,
                                                      reflect_Int32, reflect_Int64}
                            then Some (Return (Some (plistValue Integer (V_int64 (Value_Int val')))) None)
                            else if Type_Kind typ' \<in> {reflect_Uint, reflect_Uint8, reflect_Uint16,
                                                      reflect_Uint32, reflect_Uint64}
                            then Some (Return (Some (plistValue Integer (V_uint64 (Value_Uint val')))) None)
                            else if Type_Kind typ' \<in> {reflect_Float32, reflect_Float64}
                            then Some (Return (Some (plistValue Real (V_float64 (Value_Float val')))) None)
                            else if Type_Kind typ' = reflect_Bool
                            then Some (Return (Some (plistValue Boolean (V_bool (Value_Bool val')))) None)
                            else if Type_Kind typ' \<in> {reflect_Slice, reflect_Array}
                            then
                              (if Type_Kind (Type_Elem typ') = reflect_Uint8
                               then
                                 (if CanAddr val'
                                  then Some (Return (Some (plistValue Data (V_bytes (Bytes val')))) None)
                                  else
                                    (case Copy_to_bytes val' of
                                       Inl p \<Rightarrow> Some (Panic p)
                                     | Inr bytes \<Rightarrow>
                                         Some (Return (Some (plistValue Data (V_bytes bytes))) None)))
                               else
                                 (case for_range
                                         (\<lambda>idx subvalues.
                                            store_or_return (valueToPlistValue env (Index val' idx))
                                              (\<lambda>v. subvalues[idx := v]))
                                         [0 ..< Len val'] (replicate (Len val') None) of
                                    Inl r \<Rightarrow> Some r
                                  | Inr subvalues \<Rightarrow>
                                      Some (Return (Some (plistValue Array (V_slice subvalues))) None)))
                            else if Type_Kind typ' = reflect_Map
                            then
                              (if Type_Kind (Type_Key typ') \<noteq> reflect_String
                               then Some (Return None (Some (UnknownTypeError typ')))
                               else
                                 (case for_range
                                         (\<lambda>keyv subvalues.
                                            store_or_return (valueToPlistValue env (MapIndex val' keyv))
                                              (\<lambda>v. subvalues(Value_String keyv \<mapsto> v)))
                                         (MapKeys val') Map.empty of
                                    Inl r \<Rightarrow> Some r
                                  | Inr subvalues \<Rightarrow>
                                      Some (Return (Some (plistValue Dictionary (V_map subvalues))) None)))
                            else Some (Return None (Some (UnknownTypeError typ')))) of
                           Some r \<Rightarrow> r
                         | None \<Rightarrow> Return None (Some (errorString ''Wat''))))))"
| "structToPlistValue env typ val =
     (let tinfo = getTypeInfo env typ in
      case for_range
             (\<lambda>finfo subvalues.
                let value = fieldInfo_value finfo val in
                if \<not> IsValid value \<or> omitEmpty finfo \<and> isEmptyValue value then Inr subvalues
                else store_or_return (valueToPlistValue env value)
                       (\<lambda>v. subvalues(name finfo \<mapsto> v)))
             (typeInfo.fields tinfo) Map.empty of
        Inl r \<Rightarrow> r
      | Inr subvalues \<Rightarrow> Return (Some (plistValue Dictionary (V_map subvalues))) None)"
  by pat_completeness auto

termination
  apply (relation "measure (\<lambda>x. case x of Inl (env, v) \<Rightarrow> 2 * size v + 1 | Inr (env, t, v) \<Rightarrow> 2 * size v)")
  subgoal by simp
  subgoal for env v t ba v' t'
    using size_descend[of v t v' t'] by simp
  subgoal for env v t ba v' t' i
    using size_descend[of v t v' t'] size_Index[of i v'] by simp
  subgoal for env v t ba v' t' keyv
    using size_descend[of v t v' t'] size_MapIndex[of keyv v'] by simp
  subgoal for env t v tinfo finfo fv
    using size_fieldInfo_value[of finfo v] by simp
  done

declare valueToPlistValue.simps [simp del] structToPlistValue.simps [simp del]

subsection \<open>The parts of the two functions, named\<close>

text \<open>
  The three loops and the \<open>switch\<close> of the functions above, as definitions of their
  own, so that the properties below can speak about them. \<open>valueToPlistValue_eq\<close> and
  \<open>structToPlistValue_eq\<close> show that the functions are made of these parts.
\<close>

definition array_loop :: "env \<Rightarrow> Value \<Rightarrow> outcome + plistValue option list" where
  "array_loop env val =
     for_range (\<lambda>idx subvalues.
                  store_or_return (valueToPlistValue env (Index val idx)) (\<lambda>v. subvalues[idx := v]))
       [0 ..< Len val] (replicate (Len val) None)"

definition map_loop :: "env \<Rightarrow> Value \<Rightarrow> outcome + (string \<Rightarrow> plistValue option option)" where
  "map_loop env val =
     for_range (\<lambda>keyv subvalues.
                  store_or_return (valueToPlistValue env (MapIndex val keyv))
                    (\<lambda>v. subvalues(Value_String keyv \<mapsto> v)))
       (MapKeys val) Map.empty"

definition field_loop :: "env \<Rightarrow> Type \<Rightarrow> Value \<Rightarrow> outcome + (string \<Rightarrow> plistValue option option)" where
  "field_loop env t val =
     for_range (\<lambda>finfo subvalues.
                  if \<not> IsValid (fieldInfo_value finfo val) \<or>
                     omitEmpty finfo \<and> isEmptyValue (fieldInfo_value finfo val)
                  then Inr subvalues
                  else store_or_return (valueToPlistValue env (fieldInfo_value finfo val))
                         (\<lambda>v. subvalues(name finfo \<mapsto> v)))
       (typeInfo.fields (getTypeInfo env t)) Map.empty"

definition kind_switch :: "env \<Rightarrow> Value \<Rightarrow> Type \<Rightarrow> outcome" where
  "kind_switch env val t =
     (if Type_Kind t = reflect_String
      then Return (Some (plistValue String (V_string (Value_String val)))) None
      else if Type_Kind t \<in> {reflect_Int, reflect_Int8, reflect_Int16, reflect_Int32, reflect_Int64}
      then Return (Some (plistValue Integer (V_int64 (Value_Int val)))) None
      else if Type_Kind t \<in> {reflect_Uint, reflect_Uint8, reflect_Uint16, reflect_Uint32,
                               reflect_Uint64}
      then Return (Some (plistValue Integer (V_uint64 (Value_Uint val)))) None
      else if Type_Kind t \<in> {reflect_Float32, reflect_Float64}
      then Return (Some (plistValue Real (V_float64 (Value_Float val)))) None
      else if Type_Kind t = reflect_Bool
      then Return (Some (plistValue Boolean (V_bool (Value_Bool val)))) None
      else if Type_Kind t \<in> {reflect_Slice, reflect_Array}
      then (if Type_Kind (Type_Elem t) = reflect_Uint8
            then (if CanAddr val
                  then Return (Some (plistValue Data (V_bytes (Bytes val)))) None
                  else (case Copy_to_bytes val of
                          Inl p \<Rightarrow> Panic p
                        | Inr bytes \<Rightarrow> Return (Some (plistValue Data (V_bytes bytes))) None))
            else (case array_loop env val of
                    Inl r \<Rightarrow> r
                  | Inr subvalues \<Rightarrow> Return (Some (plistValue Array (V_slice subvalues))) None))
      else if Type_Kind t = reflect_Map
      then (if Type_Kind (Type_Key t) \<noteq> reflect_String
            then Return None (Some (UnknownTypeError t))
            else (case map_loop env val of
                    Inl r \<Rightarrow> r
                  | Inr subvalues \<Rightarrow> Return (Some (plistValue Dictionary (V_map subvalues))) None))
      else Return None (Some (UnknownTypeError t)))"

subsection \<open>Notions for the properties\<close>

text \<open>
  What a call returned as its first result; an outcome that is not a return with an
  \<open>errors.New\<close> error.
\<close>

definition returned :: "outcome \<Rightarrow> plistValue option" where
  "returned r = (case r of Return v e \<Rightarrow> v | Panic p \<Rightarrow> None)"

definition no_errorString :: "outcome \<Rightarrow> bool" where
  "no_errorString r = (case r of Return v (Some (errorString s)) \<Rightarrow> False | _ \<Rightarrow> True)"

text \<open>
  \<open>dispatches env val val' typ'\<close>: the call on \<open>val\<close> reaches line 109 with the
  variables \<open>val\<close> and \<open>typ\<close> holding \<open>val'\<close> and \<open>typ'\<close>. That is, \<open>val\<close> is valid,
  the check for a text marshaler passes on, and the descent into a pointer or interface
  yields \<open>val'\<close> of type \<open>typ'\<close> (or leaves \<open>val\<close> as it is).
\<close>

definition dispatches :: "env \<Rightarrow> Value \<Rightarrow> Value \<Rightarrow> Type \<Rightarrow> bool" where
  "dispatches env val val' typ' =
     (case Value_Type val of
        Inl p \<Rightarrow> False
      | Inr typ \<Rightarrow> checkTextMarshaler env val typ = None \<and> descend val typ = Inr (val', typ'))"

text \<open>
  The map that the assignments \<open>subvalues[k] = v\<close> build from the empty map, in the
  order of the list; the assignments of a map's loop and of a struct's loop when every
  conversion succeeds; the condition of line 71 under which a field is skipped.
\<close>

definition assign_all :: "(string \<times> plistValue option) list \<Rightarrow> string \<Rightarrow> plistValue option option" where
  "assign_all kvs = fold (\<lambda>(k, v) subvalues. subvalues(k \<mapsto> v)) kvs Map.empty"

definition map_entries :: "env \<Rightarrow> Value \<Rightarrow> (string \<times> plistValue option) list" where
  "map_entries env val =
     map (\<lambda>keyv. (Value_String keyv, returned (valueToPlistValue env (MapIndex val keyv))))
       (MapKeys val)"

definition omitted :: "fieldInfo \<Rightarrow> Value \<Rightarrow> bool" where
  "omitted finfo val =
     (\<not> IsValid (fieldInfo_value finfo val) \<or>
      omitEmpty finfo \<and> isEmptyValue (fieldInfo_value finfo val))"

definition field_entries :: "env \<Rightarrow> Type \<Rightarrow> Value \<Rightarrow> (string \<times> plistValue option) list" where
  "field_entries env t val =
     map (\<lambda>finfo. (name finfo, returned (valueToPlistValue env (fieldInfo_value finfo val))))
       (filter (\<lambda>finfo. \<not> omitted finfo val) (typeInfo.fields (getTypeInfo env t)))"

subsection \<open>Example inputs\<close>

text \<open>
  \<open>reflect.ValueOf(x)\<close>: neither addressable nor read-only. \<open>no_marshalers\<close> is a
  program in which no type has a MarshalText method and no struct type has fields.
\<close>

definition ValueOf :: "Type \<Rightarrow> data \<Rightarrow> Value" where
  "ValueOf t d = Value t \<lparr>flagAddr = False, flagRO = False\<rparr> d"

definition no_marshalers :: env where
  "no_marshalers =
     \<lparr>Implements = (\<lambda>t i. False), MarshalText = (\<lambda>m. Inr ([], None)),
      getTypeInfo = (\<lambda>t. typeInfo [])\<rparr>"

definition mixed_slice :: Value where
  "mixed_slice =
     ValueOf (SliceOf (Literal reflect_Interface ''interface {}''))
       (D_seq [D_iface (Some (Predeclared reflect_Int, D_int 1)),
               D_iface (Some (Literal reflect_Func ''func()'', D_opaque)),
               D_iface (Some (Predeclared reflect_Int, D_int 3))])"

definition nil_element_slice :: Value where
  "nil_element_slice =
     ValueOf (SliceOf (Literal reflect_Interface ''interface {}''))
       (D_seq [D_iface (Some (Predeclared reflect_Int, D_int 1)), D_iface None])"

definition int_slice :: Value where
  "int_slice = ValueOf (SliceOf (Predeclared reflect_Int)) (D_seq [D_int 1, D_int 2])"

definition max_uint64 :: Value where
  "max_uint64 = ValueOf (Predeclared reflect_Uint64) (D_uint 0xFFFFFFFFFFFFFFFF)"

definition minus_one_int8 :: Value where
  "minus_one_int8 = ValueOf (Predeclared reflect_Int8) (D_int (- 1))"

definition a_uintptr :: Value where
  "a_uintptr = ValueOf (Predeclared reflect_Uintptr) (D_uint 5)"

definition int_ptr :: Value where
  "int_ptr = ValueOf (PtrTo (Predeclared reflect_Int)) (D_ptr (Some (D_int 5)))"

definition int_ptr_ptr :: Value where
  "int_ptr_ptr =
     ValueOf (PtrTo (PtrTo (Predeclared reflect_Int))) (D_ptr (Some (D_ptr (Some (D_int 5)))))"

definition stamp_type :: Type where
  "stamp_type = Defined ''Stamp'' (Literal reflect_Struct ''struct {}'')"

definition seal_type :: Type where
  "seal_type = Defined ''Seal'' (Predeclared reflect_Int)"

definition stamps :: env where
  "stamps =
     \<lparr>Implements =
        (\<lambda>t i. i = textMarshalerType \<and>
               t \<in> {stamp_type, PtrTo stamp_type, PtrTo seal_type, textMarshalerType}),
      MarshalText =
        (\<lambda>(t, d). if t = PtrTo seal_type then Inr ([], Some ''broken seal'')
                  else if d = D_ptr None
                  then Inl (method_panic ''value method Stamp.MarshalText called using nil *Stamp pointer'')
                  else Inr ([0x6F, 0x6B], None)),
      getTypeInfo = (\<lambda>t. typeInfo [])\<rparr>"

definition ro_stamp :: Value where
  "ro_stamp = Value stamp_type \<lparr>flagAddr = False, flagRO = True\<rparr> (D_struct [])"

definition nil_marshaler :: Value where
  "nil_marshaler = ValueOf textMarshalerType (D_iface None)"

definition nil_stamp_ptr :: Value where
  "nil_stamp_ptr = ValueOf (PtrTo stamp_type) (D_ptr None)"

definition a_stamp :: Value where
  "a_stamp = ValueOf stamp_type (D_struct [])"

definition a_seal :: Value where
  "a_seal = Value seal_type \<lparr>flagAddr = True, flagRO = False\<rparr> (D_int 7)"

definition my_bytes :: Value where
  "my_bytes =
     ValueOf (SliceOf (Defined ''MyByte'' (Predeclared reflect_Uint8))) (D_seq [D_uint 1, D_uint 2])"

definition int_map :: Value where
  "int_map =
     ValueOf (MapOf (Predeclared reflect_String) (Predeclared reflect_Int))
       (D_map [(D_string ''a'', D_int 1), (D_string ''b'', D_int 2)])"

definition nil_value_map :: Value where
  "nil_value_map =
     ValueOf (MapOf (Predeclared reflect_String) (Literal reflect_Interface ''interface {}''))
       (D_map [(D_string ''a'', D_iface None)])"

definition int_keyed_map :: Value where
  "int_keyed_map =
     ValueOf (MapOf (Predeclared reflect_Int) (Predeclared reflect_Int)) (D_map [(D_int 1, D_int 2)])"

definition func_map :: Value where
  "func_map =
     ValueOf (MapOf (Predeclared reflect_String) (Literal reflect_Interface ''interface {}''))
       (D_map [(D_string ''a'', D_iface (Some (Predeclared reflect_Int, D_int 1))),
               (D_string ''b'', D_iface (Some (Literal reflect_Func ''func()'', D_opaque))),
               (D_string ''c'', D_iface (Some (Predeclared reflect_Int, D_int 3)))])"

definition record_provider :: env where
  "record_provider =
     \<lparr>Implements = (\<lambda>t i. False), MarshalText = (\<lambda>m. Inr ([], None)),
      getTypeInfo =
        (\<lambda>t. typeInfo [\<lparr>idx = 0, name = ''Name'', omitEmpty = True\<rparr>,
                       \<lparr>idx = 1, name = ''Count'', omitEmpty = False\<rparr>])\<rparr>"

definition record_type :: Type where
  "record_type = Defined ''Rec'' (Literal reflect_Struct ''struct { Name string; Count int }'')"

definition empty_record :: Value where
  "empty_record =
     ValueOf record_type
       (D_struct [ValueOf (Predeclared reflect_String) (D_string []),
                  ValueOf (Predeclared reflect_Int) (D_int 0)])"

definition pointer_provider :: env where
  "pointer_provider =
     \<lparr>Implements = (\<lambda>t i. False), MarshalText = (\<lambda>m. Inr ([], None)),
      getTypeInfo = (\<lambda>t. typeInfo [\<lparr>idx = 0, name = ''P'', omitEmpty = False\<rparr>])\<rparr>"

definition nil_pointer_record :: Value where
  "nil_pointer_record =
     ValueOf (Defined ''PRec'' (Literal reflect_Struct ''struct { P *int }''))
       (D_struct [ValueOf (PtrTo (Predeclared reflect_Int)) (D_ptr None)])"

definition func_record :: Value where
  "func_record =
     ValueOf (Literal reflect_Struct ''struct { Name func(); Count int }'')
       (D_struct [ValueOf (Literal reflect_Func ''func()'') D_opaque,
                  ValueOf (Predeclared reflect_Int) (D_int 0)])"

section \<open>Properties\<close>

subsection \<open>The functions in terms of their parts\<close>

lemma Value_Type_Inr_IsValid: "Value_Type val = Inr t \<Longrightarrow> IsValid val"
  by (auto simp: Value_Type_def IsValid_def split: Value.splits)

lemmas case_option_if = if_distrib[where f = "case_option a b" for a b]
lemmas case_option_sum = sum.case_distrib[where h = "case_option a b" for a b]

lemma valueToPlistValue_eq:
  "valueToPlistValue env val =
     (case Value_Type val of
        Inl p \<Rightarrow> Panic p
      | Inr t \<Rightarrow>
          (case checkTextMarshaler env val t of
             Some r \<Rightarrow> r
           | None \<Rightarrow>
               (case descend val t of
                  Inl p \<Rightarrow> Panic p
                | Inr (val', t') \<Rightarrow>
                    if Type_Kind t' = reflect_Struct then structToPlistValue env t' val'
                    else kind_switch env val' t')))"
proof (cases "Value_Type val")
  case (Inl p)
  then show ?thesis by (subst valueToPlistValue.simps) simp
next
  case (Inr t)
  then have valid: "IsValid val" by (rule Value_Type_Inr_IsValid)
  show ?thesis
  proof (cases "checkTextMarshaler env val t")
    case (Some r)
    with Inr valid show ?thesis by (subst valueToPlistValue.simps) simp
  next
    case None
    show ?thesis
    proof (cases "descend val t")
      case (Inl p)
      with Inr valid None show ?thesis by (subst valueToPlistValue.simps) simp
    next
      case d: (Inr vt)
      obtain val' t' where vt: "vt = (val', t')" by (cases vt)
      show ?thesis
        apply (subst valueToPlistValue.simps)
        apply (simp only: Inr valid None d vt sum.case option.case prod.case not_True_eq_False
            not_False_eq_True if_False if_True
            kind_switch_def array_loop_def map_loop_def case_option_if case_option_sum
            cong: if_cong sum.case_cong)
        done
    qed
  qed
qed

lemma structToPlistValue_eq:
  "structToPlistValue env t val =
     (case field_loop env t val of
        Inl r \<Rightarrow> r
      | Inr subvalues \<Rightarrow> Return (Some (plistValue Dictionary (V_map subvalues))) None)"
  by (subst structToPlistValue.simps) (simp add: field_loop_def Let_def)

lemma valueToPlistValue_dispatches:
  "dispatches env val val' typ' \<Longrightarrow>
   valueToPlistValue env val =
     (if Type_Kind typ' = reflect_Struct then structToPlistValue env typ' val'
      else kind_switch env val' typ')"
  by (cases "Value_Type val") (simp_all add: dispatches_def valueToPlistValue_eq)

lemmas eval_defs =
  dispatches_def Value_Type_def ValueOf_def checkTextMarshaler_def no_marshalers_def
  CanInterface_def CanAddr_def Addr_def descend_def Value_Elem_def Len_def Index_def
  Value_Int_def Value_Uint_def Value_String_def Value_Float_def Value_Bool_def
  Interface_TextMarshaler_def stringMarshalableToPlistValue_def IsValid_def
  MapKeys_def MapIndex_def fieldInfo_value_def isEmptyValue_def Value_Kind_def
  Bytes_def Copy_to_bytes_def elems_def byte_of_def returned_def assign_all_def

subsection \<open>Loops that leave the function\<close>

lemma for_range_Inl:
  "for_range body xs s = Inl r \<Longrightarrow> \<exists>x\<in>set xs. \<exists>u. body x u = Inl r"
  by (induction xs arbitrary: s) (auto split: sum.splits)

lemma store_or_return_Inl:
  "store_or_return r store = Inl r' \<Longrightarrow>
   (\<exists>p. r = Panic p \<and> r' = Panic p) \<or> (\<exists>v err. r = Return v (Some err) \<and> r' = Return None (Some err))"
  by (auto simp: store_or_return_def split: outcome.splits option.splits)

lemma for_range_append:
  "for_range body (xs @ ys) s =
     (case for_range body xs s of Inl r \<Rightarrow> Inl r | Inr s' \<Rightarrow> for_range body ys s')"
  by (induction xs arbitrary: s) (auto split: sum.splits)

lemma for_range_ok:
  assumes "\<And>x. x \<in> set xs \<Longrightarrow> \<not> skip x \<Longrightarrow> \<exists>v. conv x = Return v None"
  shows "for_range (\<lambda>x s. if skip x then Inr s else store_or_return (conv x) (store x s)) xs s0 =
         Inr (fold (\<lambda>x s. store x s (returned (conv x))) (filter (\<lambda>x. \<not> skip x) xs) s0)"
  using assms
proof (induction xs arbitrary: s0)
  case Nil
  then show ?case by simp
next
  case (Cons x xs)
  show ?case
  proof (cases "skip x")
    case True
    with Cons show ?thesis by simp
  next
    case False
    with Cons.prems[of x] obtain v where v: "conv x = Return v None" by auto
    with False Cons show ?thesis
      by (simp add: store_or_return_def returned_def)
  qed
qed

lemma for_range_abort:
  assumes "xs = pre @ x # post"
    and "\<And>y. y \<in> set pre \<Longrightarrow> \<not> skip y \<Longrightarrow> \<exists>v. conv y = Return v None"
    and "\<not> skip x" and "conv x = Return v (Some err)"
  shows "for_range (\<lambda>x s. if skip x then Inr s else store_or_return (conv x) (store x s)) xs s0 =
         Inl (Return None (Some err))"
  using assms(3,4)
  by (simp add: assms(1) for_range_append for_range_ok[where xs = pre, OF assms(2)]
        store_or_return_def)

lemma for_range_panic:
  assumes "xs = pre @ x # post"
    and "\<And>y. y \<in> set pre \<Longrightarrow> \<not> skip y \<Longrightarrow> \<exists>v. conv y = Return v None"
    and "\<not> skip x" and "conv x = Panic p"
  shows "for_range (\<lambda>x s. if skip x then Inr s else store_or_return (conv x) (store x s)) xs s0 =
         Inl (Panic p)"
  using assms(3,4)
  by (simp add: assms(1) for_range_append for_range_ok[where xs = pre, OF assms(2)]
        store_or_return_def)

lemma for_range_panic':
  assumes "xs = pre @ x # post"
    and "\<And>y. y \<in> set pre \<Longrightarrow> \<exists>v. conv y = Return v None"
    and "conv x = Panic p"
  shows "for_range (\<lambda>x s. store_or_return (conv x) (store x s)) xs s0 = Inl (Panic p)"
  using for_range_panic[where skip = "\<lambda>_. False" and conv = conv and xs = xs and store = store
      and ?s0.0 = s0 and pre = pre and x = x and post = post and p = p] assms
  by simp

lemma for_range_ok':
  assumes "\<And>x. x \<in> set xs \<Longrightarrow> \<exists>v. conv x = Return v None"
  shows "for_range (\<lambda>x s. store_or_return (conv x) (store x s)) xs s0 =
         Inr (fold (\<lambda>x s. store x s (returned (conv x))) xs s0)"
  using for_range_ok[where skip = "\<lambda>_. False" and conv = conv and xs = xs and store = store
      and ?s0.0 = s0] assms by simp

lemma for_range_abort':
  assumes "xs = pre @ x # post"
    and "\<And>y. y \<in> set pre \<Longrightarrow> \<exists>v. conv y = Return v None"
    and "conv x = Return v (Some err)"
  shows "for_range (\<lambda>x s. store_or_return (conv x) (store x s)) xs s0 =
         Inl (Return None (Some err))"
  using for_range_abort[where skip = "\<lambda>_. False" and conv = conv and xs = xs and store = store
      and ?s0.0 = s0 and pre = pre and x = x and post = post and v = v and err = err] assms
  by simp

lemma fold_list_update_length:
  "length (fold (\<lambda>i s. s[i := f i]) is s) = length s"
  by (induction "is" arbitrary: s) auto

lemma fold_list_update_nth:
  "j < length s \<Longrightarrow> fold (\<lambda>i s. s[i := f i]) is s ! j = (if j \<in> set is then f j else s ! j)"
  by (induction "is" arbitrary: s) (auto simp: nth_list_update)

lemma fold_list_update_upt:
  "fold (\<lambda>i s. s[i := f i]) [0 ..< n] (replicate n a) = map f [0 ..< n]"
  by (rule nth_equalityI) (simp_all add: fold_list_update_length fold_list_update_nth)

lemma fold_assign:
  "fold (\<lambda>x m. m(k x \<mapsto> f x)) xs m0 = fold (\<lambda>(k, v) m. m(k \<mapsto> v)) (map (\<lambda>x. (k x, f x)) xs) m0"
  by (induction xs arbitrary: m0) auto

lemma fold_assign_map_of:
  "fold (\<lambda>(k, v) m. m(k \<mapsto> v)) kvs m0 = m0 ++ map_of (rev kvs)"
  by (induction kvs arbitrary: m0) (auto simp: map_add_def fun_eq_iff split: option.splits)

lemma assign_all_map_of: "assign_all kvs = map_of (rev kvs)"
  by (simp add: assign_all_def fold_assign_map_of)

lemma dom_assign_all: "dom (assign_all kvs) = fst ` set kvs"
  by (simp add: assign_all_map_of dom_map_of_conv_image_fst)

lemma assign_all_distinct:
  "distinct (map fst kvs) \<Longrightarrow> (k, v) \<in> set kvs \<Longrightarrow> assign_all kvs k = Some v"
  by (simp add: assign_all_map_of rev_map[symmetric])

lemma card_dom_assign_all:
  "distinct (map fst kvs) \<Longrightarrow> card (dom (assign_all kvs)) = length kvs"
  using distinct_card[of "map fst kvs"] by (simp add: dom_assign_all)

subsection \<open>The emptiness predicate\<close>

lemma unat_take_bit_63: "unat (take_bit 63 (x :: 64 word)) = unat x mod 2 ^ 63"
  by (subst unsigned_take_bit_eq) (simp add: take_bit_eq_mod)

lemma mod_eq_0_below_double:
  "0 < m \<Longrightarrow> n < 2 * m \<Longrightarrow> (n mod m = 0) = (n = 0 \<or> n = (m::nat))"
proof (cases "n < m")
  case True
  then show ?thesis by auto
next
  case False
  assume "n < 2 * m"
  with False have "n mod m = n - m"
    by (simp add: le_mod_geq)
  with False show ?thesis by auto
qed

lemma mod_2_63_eq_0: "n < 2 ^ 64 \<Longrightarrow> (n mod 2 ^ 63 = 0) = (n = 0 \<or> n = (2::nat) ^ 63)"
  using mod_eq_0_below_double[of "2 ^ 63" n] by simp

lemma eq_sign_bit_iff: "(x = (0x8000000000000000 :: 64 word)) = (unat x = 2 ^ 63)"
  by (simp add: word_unat_eq_iff)

lemma float64_eq_zero_iff: "float64_eq_zero x \<longleftrightarrow> x = 0 \<or> x = 0x8000000000000000"
proof -
  have "take_bit 63 x = 0 \<longleftrightarrow> unat (take_bit 63 x) = 0"
    by (simp add: unsigned_eq_0_iff)
  also have "\<dots> \<longleftrightarrow> unat x mod 2 ^ 63 = 0"
    by (simp only: unat_take_bit_63)
  also have "\<dots> \<longleftrightarrow> unat x = 0 \<or> unat x = 2 ^ 63"
    using unsigned_less[of x, where 'a = nat] mod_2_63_eq_0[of "unat x"] by simp
  also have "\<dots> \<longleftrightarrow> x = 0 \<or> x = 0x8000000000000000"
    using eq_sign_bit_iff[of x] by (simp add: unsigned_eq_0_iff)
  finally show ?thesis unfolding float64_eq_zero_def .
qed

lemma Kind_classes:
  "k \<in> {reflect_Array, reflect_Map, reflect_Slice, reflect_String} \<union> {reflect_Bool} \<union>
       {reflect_Int, reflect_Int8, reflect_Int16, reflect_Int32, reflect_Int64} \<union>
       {reflect_Uint, reflect_Uint8, reflect_Uint16, reflect_Uint32, reflect_Uint64, reflect_Uintptr} \<union>
       {reflect_Float32, reflect_Float64} \<union> {reflect_Interface, reflect_Ptr} \<union>
       {reflect_Invalid, reflect_Complex64, reflect_Complex128, reflect_Chan, reflect_Func,
        reflect_Struct, reflect_UnsafePointer}"
  by (cases k) simp_all

text \<open>
  Claim C9. \<open>isEmptyValue\<close> classifies by kind: an array, map, slice or string is
  empty iff its length is zero; a boolean iff it is false; a signed integer, an unsigned
  integer (uintptr included) or a floating-point number iff it equals zero (for a float,
  positive or negative zero); an interface or pointer iff it is nil; a Value of any other
  kind (the zero Value, complex numbers, channels, functions, structs, unsafe pointers)
  is never empty. By \<open>Kind_classes\<close> these seven classes are all the kinds.
\<close>

theorem isEmptyValue_by_kind:
  "(Value_Kind v \<in> {reflect_Array, reflect_Map, reflect_Slice, reflect_String} \<longrightarrow>
      isEmptyValue v = (Len v = 0)) \<and>
   (Value_Kind v = reflect_Bool \<longrightarrow> isEmptyValue v = (Value_Bool v = False)) \<and>
   (Value_Kind v \<in> {reflect_Int, reflect_Int8, reflect_Int16, reflect_Int32, reflect_Int64} \<longrightarrow>
      isEmptyValue v = (sint (Value_Int v) = 0)) \<and>
   (Value_Kind v \<in> {reflect_Uint, reflect_Uint8, reflect_Uint16, reflect_Uint32, reflect_Uint64,
                      reflect_Uintptr} \<longrightarrow>
      isEmptyValue v = (unat (Value_Uint v) = 0)) \<and>
   (Value_Kind v \<in> {reflect_Float32, reflect_Float64} \<longrightarrow>
      isEmptyValue v = (Value_Float v = 0 \<or> Value_Float v = 0x8000000000000000)) \<and>
   (Value_Kind v \<in> {reflect_Interface, reflect_Ptr} \<longrightarrow> isEmptyValue v = IsNil v) \<and>
   (Value_Kind v \<in> {reflect_Invalid, reflect_Complex64, reflect_Complex128, reflect_Chan,
                      reflect_Func, reflect_Struct, reflect_UnsafePointer} \<longrightarrow>
      \<not> isEmptyValue v)"
proof -
  have s: "(sint w = 0) = (w = 0)" for w :: "64 word"
    by (simp add: signed_eq_0_iff)
  have u: "(unat w = 0) = (w = 0)" for w :: "64 word"
    by (simp add: unsigned_eq_0_iff)
  show ?thesis
    unfolding isEmptyValue_def Let_def s u float64_eq_zero_iff[symmetric]
    by (cases "Value_Kind v") simp_all
qed

text \<open>
  The theorem at a Value of each class: an empty string, a slice of one element, the
  boolean false, the \<open>int8\<close> -1, the \<open>uintptr\<close> 0, the float negative zero, a nil
  pointer, a complex number and the zero Value.
\<close>

theorem isEmptyValue_by_kind_witness:
  "isEmptyValue (ValueOf (Predeclared reflect_String) (D_string [])) \<and>
   \<not> isEmptyValue (ValueOf (SliceOf (Predeclared reflect_Int)) (D_seq [D_int 0])) \<and>
   isEmptyValue (ValueOf (Predeclared reflect_Bool) (D_bool False)) \<and>
   \<not> isEmptyValue (ValueOf (Predeclared reflect_Int8) (D_int (- 1))) \<and>
   isEmptyValue (ValueOf (Predeclared reflect_Uintptr) (D_uint 0)) \<and>
   isEmptyValue (ValueOf (Predeclared reflect_Float64) (D_float 0x8000000000000000)) \<and>
   isEmptyValue (ValueOf (PtrTo (Predeclared reflect_Int)) (D_ptr None)) \<and>
   \<not> isEmptyValue (ValueOf (Predeclared reflect_Complex128) D_opaque) \<and>
   \<not> isEmptyValue Zero_Value"
  using isEmptyValue_by_kind[of "ValueOf (Predeclared reflect_String) (D_string [])"]
    isEmptyValue_by_kind[of "ValueOf (SliceOf (Predeclared reflect_Int)) (D_seq [D_int 0])"]
    isEmptyValue_by_kind[of "ValueOf (Predeclared reflect_Bool) (D_bool False)"]
    isEmptyValue_by_kind[of "ValueOf (Predeclared reflect_Int8) (D_int (- 1))"]
    isEmptyValue_by_kind[of "ValueOf (Predeclared reflect_Uintptr) (D_uint 0)"]
    isEmptyValue_by_kind[of "ValueOf (Predeclared reflect_Float64) (D_float 0x8000000000000000)"]
    isEmptyValue_by_kind[of "ValueOf (PtrTo (Predeclared reflect_Int)) (D_ptr None)"]
    isEmptyValue_by_kind[of "ValueOf (Predeclared reflect_Complex128) D_opaque"]
    isEmptyValue_by_kind[of Zero_Value]
  by (simp add: ValueOf_def Value_Kind_def Len_def Value_Bool_def Value_Int_def Value_Uint_def
        Value_Float_def IsNil_def)

subsection \<open>Invalid and nil inputs\<close>

text \<open>
  Claim C1. On the zero Value the converter does not return "absent": \<open>val.Type()\<close> on
  line 86 panics before the \<open>IsValid\<close> check on line 88 is reached. A nil pointer and a
  nil interface pass the check, are unwrapped to the zero Value on line 105, and
  \<open>val.Type()\<close> on line 106 panics.
\<close>

theorem valueToPlistValue_panics_on_invalid:
  "valueToPlistValue env Zero_Value = Panic (ValueError ''reflect.Value.Type'' reflect_Invalid) \<and>
   valueToPlistValue no_marshalers (ValueOf (PtrTo (Predeclared reflect_Int)) (D_ptr None)) =
     Panic (ValueError ''reflect.Value.Type'' reflect_Invalid) \<and>
   valueToPlistValue no_marshalers
       (ValueOf (Literal reflect_Interface ''interface {}'') (D_iface None)) =
     Panic (ValueError ''reflect.Value.Type'' reflect_Invalid)"
  by (simp add: valueToPlistValue_eq Value_Type_def ValueOf_def no_marshalers_def
        checkTextMarshaler_def CanInterface_def CanAddr_def descend_def Value_Elem_def)

subsection \<open>Pointers and interfaces\<close>

text \<open>
  Claim C2 fails as stated: a pointer to a pointer to the int 5 does not convert as
  the int 5 does. The converter unwraps one level and does not start over; the switch
  on the kind then meets a pointer and returns UnknownTypeError.
\<close>

theorem nested_indirection_counterexample:
  "valueToPlistValue no_marshalers int_ptr_ptr =
     Return None (Some (UnknownTypeError (PtrTo (Predeclared reflect_Int)))) \<and>
   valueToPlistValue no_marshalers (ValueOf (Predeclared reflect_Int) (D_int 5)) =
     Return (Some (plistValue Integer (V_int64 5))) None"
  by (simp add: valueToPlistValue_eq kind_switch_def int_ptr_ptr_def eval_defs)

text \<open>
  Claim C2, amended. For a pointer or interface that the check for a text marshaler
  passes on and whose \<open>Elem\<close> is valid, the converter unwraps exactly one level, in
  place: the result is that of the struct handling or of the switch on the kind, applied
  to the value referred to. When that value is itself a pointer or an interface, the
  result is UnknownTypeError with its type. When it is not, and the check for a text
  marshaler passes on for it too, the result equals that of converting it directly.
\<close>

theorem one_level_of_indirection:
  assumes "Value_Type val = Inr typ"
    and "Type_Kind typ \<in> {reflect_Ptr, reflect_Interface}"
    and "checkTextMarshaler env val typ = None"
    and "Value_Type (Value_Elem val) = Inr typ'"
  shows
    "valueToPlistValue env val =
       (if Type_Kind typ' = reflect_Struct then structToPlistValue env typ' (Value_Elem val)
        else kind_switch env (Value_Elem val) typ') \<and>
     (Type_Kind typ' \<in> {reflect_Ptr, reflect_Interface} \<longrightarrow>
        valueToPlistValue env val = Return None (Some (UnknownTypeError typ'))) \<and>
     (Type_Kind typ' \<notin> {reflect_Ptr, reflect_Interface} \<and>
      checkTextMarshaler env (Value_Elem val) typ' = None \<longrightarrow>
        valueToPlistValue env val = valueToPlistValue env (Value_Elem val))"
proof -
  have d: "descend val typ = Inr (Value_Elem val, typ')"
    using assms(2,4) by (auto simp: descend_def)
  have 1: "valueToPlistValue env val =
       (if Type_Kind typ' = reflect_Struct then structToPlistValue env typ' (Value_Elem val)
        else kind_switch env (Value_Elem val) typ')"
    using assms(1,3) d by (simp add: valueToPlistValue_eq)
  have 2: "kind_switch env (Value_Elem val) typ' = Return None (Some (UnknownTypeError typ'))"
    if "Type_Kind typ' \<in> {reflect_Ptr, reflect_Interface}"
    using that by (auto simp: kind_switch_def)
  have 3: "valueToPlistValue env (Value_Elem val) =
       (if Type_Kind typ' = reflect_Struct then structToPlistValue env typ' (Value_Elem val)
        else kind_switch env (Value_Elem val) typ')"
    if "Type_Kind typ' \<notin> {reflect_Ptr, reflect_Interface}"
      and "checkTextMarshaler env (Value_Elem val) typ' = None"
    using that assms(4) by (simp add: valueToPlistValue_eq descend_def)
  show ?thesis
    using 1 2 3 by auto
qed

text \<open>
  The theorem at a pointer to an int and at a pointer to a pointer to an int.
\<close>

theorem one_level_of_indirection_witness:
  "Value_Type int_ptr = Inr (PtrTo (Predeclared reflect_Int)) \<and>
   checkTextMarshaler no_marshalers int_ptr (PtrTo (Predeclared reflect_Int)) = None \<and>
   Value_Type (Value_Elem int_ptr) = Inr (Predeclared reflect_Int) \<and>
   valueToPlistValue no_marshalers int_ptr = valueToPlistValue no_marshalers (Value_Elem int_ptr) \<and>
   Value_Type int_ptr_ptr = Inr (PtrTo (PtrTo (Predeclared reflect_Int))) \<and>
   checkTextMarshaler no_marshalers int_ptr_ptr (PtrTo (PtrTo (Predeclared reflect_Int))) = None \<and>
   Value_Type (Value_Elem int_ptr_ptr) = Inr (PtrTo (Predeclared reflect_Int)) \<and>
   valueToPlistValue no_marshalers int_ptr_ptr =
     Return None (Some (UnknownTypeError (PtrTo (Predeclared reflect_Int))))"
proof -
  have a1: "Value_Type int_ptr = Inr (PtrTo (Predeclared reflect_Int))"
    by (simp add: int_ptr_def eval_defs)
  have b1: "Type_Kind (PtrTo (Predeclared reflect_Int)) \<in> {reflect_Ptr, reflect_Interface}"
    by simp
  have c1: "checkTextMarshaler no_marshalers int_ptr (PtrTo (Predeclared reflect_Int)) = None"
    by (simp add: int_ptr_def eval_defs)
  have e1: "Value_Type (Value_Elem int_ptr) = Inr (Predeclared reflect_Int)"
    by (simp add: int_ptr_def eval_defs)
  have f1: "Type_Kind (Predeclared reflect_Int) \<notin> {reflect_Ptr, reflect_Interface} \<and>
      checkTextMarshaler no_marshalers (Value_Elem int_ptr) (Predeclared reflect_Int) = None"
    by (simp add: int_ptr_def eval_defs)
  have a2: "Value_Type int_ptr_ptr = Inr (PtrTo (PtrTo (Predeclared reflect_Int)))"
    by (simp add: int_ptr_ptr_def eval_defs)
  have b2: "Type_Kind (PtrTo (PtrTo (Predeclared reflect_Int))) \<in> {reflect_Ptr, reflect_Interface}"
    by simp
  have c2: "checkTextMarshaler no_marshalers int_ptr_ptr (PtrTo (PtrTo (Predeclared reflect_Int))) = None"
    by (simp add: int_ptr_ptr_def eval_defs)
  have e2: "Value_Type (Value_Elem int_ptr_ptr) = Inr (PtrTo (Predeclared reflect_Int))"
    by (simp add: int_ptr_ptr_def eval_defs)
  note r1 = one_level_of_indirection[OF a1 b1 c1 e1, THEN conjunct2, THEN conjunct2, rule_format, OF f1]
  note r2 = one_level_of_indirection[OF a2 b2 c2 e2, THEN conjunct2, THEN conjunct1, rule_format, OF b1]
  from a1 c1 e1 r1 a2 c2 e2 r2 show ?thesis by blast
qed

subsection \<open>Text marshalers\<close>

text \<open>
  The outcome of the check for a text marshaler is the outcome of the call it
  delegates to, a panic of MarshalText included.
\<close>

lemma text_marshaler_delegation:
  assumes "Value_Type val = Inr typ"
  shows
    "(CanInterface val \<and> Implements env typ textMarshalerType \<and>
      Interface_TextMarshaler val = Inr m \<longrightarrow>
        valueToPlistValue env val = stringMarshalableToPlistValue env m) \<and>
     (\<not> (CanInterface val \<and> Implements env typ textMarshalerType) \<and> CanAddr val \<and>
      CanInterface (Addr val) \<and> Implements env (PtrTo typ) textMarshalerType \<and>
      Interface_TextMarshaler (Addr val) = Inr m \<longrightarrow>
        valueToPlistValue env val = stringMarshalableToPlistValue env m)"
proof -
  have pv: "Value_Type (Addr val) = Inr (PtrTo typ)"
    using assms by (auto simp: Value_Type_def Addr_def split: Value.splits)
  have 1: "checkTextMarshaler env val typ = Some (stringMarshalableToPlistValue env m)"
    if "CanInterface val" "Implements env typ textMarshalerType" "Interface_TextMarshaler val = Inr m"
    using that by (simp add: checkTextMarshaler_def)
  have 2: "checkTextMarshaler env val typ = Some (stringMarshalableToPlistValue env m)"
    if "\<not> (CanInterface val \<and> Implements env typ textMarshalerType)" "CanAddr val"
      "CanInterface (Addr val)" "Implements env (PtrTo typ) textMarshalerType"
      "Interface_TextMarshaler (Addr val) = Inr m"
    using that pv by (auto simp: checkTextMarshaler_def)
  have 3: "valueToPlistValue env val = r" if "checkTextMarshaler env val typ = Some r" for r
    using that assms by (simp add: valueToPlistValue_eq)
  show ?thesis
    using 1 2 3 by auto
qed

text \<open>
  Claim C3 fails as stated. A struct Value reached through an unexported field
  (\<open>CanInterface\<close> is false), whose type implements \<open>encoding.TextMarshaler\<close>,
  gets the struct handling and converts to a Dictionary. A nil Value of interface type
  \<open>encoding.TextMarshaler\<close> makes the type assertion on line 94 panic. A nil pointer
  whose type implements the interface through a method with a value receiver makes the
  call of MarshalText on line 58 panic.
\<close>

theorem text_marshaler_counterexample:
  "Implements stamps stamp_type textMarshalerType \<and>
   valueToPlistValue stamps ro_stamp =
     Return (Some (plistValue Dictionary (V_map Map.empty))) None \<and>
   Implements stamps textMarshalerType textMarshalerType \<and>
   valueToPlistValue stamps nil_marshaler = Panic TypeAssertionError \<and>
   Implements stamps (PtrTo stamp_type) textMarshalerType \<and>
   valueToPlistValue stamps nil_stamp_ptr =
     Panic (method_panic ''value method Stamp.MarshalText called using nil *Stamp pointer'')"
  by (simp add: valueToPlistValue_eq structToPlistValue_eq field_loop_def stamps_def stamp_type_def seal_type_def textMarshalerType_def
        ro_stamp_def nil_marshaler_def nil_stamp_ptr_def eval_defs)

text \<open>
  Claim C3, amended. Take a valid Value that can be interfaced, whose type implements
  \<open>encoding.TextMarshaler\<close>, whose content is not a nil interface and whose call of
  MarshalText returns. Its conversion is a String node with the text that MarshalText
  returned, or, when MarshalText returned an error, that error; this whatever the kind
  of the Value, a struct included. When that first check does not apply, the same holds
  of an addressable Value whose address can be interfaced and whose pointer type
  implements the interface, with MarshalText called on the address.
\<close>

theorem text_marshaler_precedence:
  assumes "Value_Type val = Inr typ"
  shows
    "(CanInterface val \<and> Implements env typ textMarshalerType \<and>
      Interface_TextMarshaler val = Inr m \<and> MarshalText env m = Inr (s, None) \<longrightarrow>
        valueToPlistValue env val = Return (Some (plistValue String (V_bytes s))) None) \<and>
     (CanInterface val \<and> Implements env typ textMarshalerType \<and>
      Interface_TextMarshaler val = Inr m \<and> MarshalText env m = Inr (s, Some err) \<longrightarrow>
        valueToPlistValue env val = Return None (Some (TextMarshalerError err))) \<and>
     (\<not> (CanInterface val \<and> Implements env typ textMarshalerType) \<and> CanAddr val \<and>
      CanInterface (Addr val) \<and> Implements env (PtrTo typ) textMarshalerType \<and>
      Interface_TextMarshaler (Addr val) = Inr m \<and> MarshalText env m = Inr (s, None) \<longrightarrow>
        valueToPlistValue env val = Return (Some (plistValue String (V_bytes s))) None) \<and>
     (\<not> (CanInterface val \<and> Implements env typ textMarshalerType) \<and> CanAddr val \<and>
      CanInterface (Addr val) \<and> Implements env (PtrTo typ) textMarshalerType \<and>
      Interface_TextMarshaler (Addr val) = Inr m \<and> MarshalText env m = Inr (s, Some err) \<longrightarrow>
        valueToPlistValue env val = Return None (Some (TextMarshalerError err)))"
proof -
  have ok: "stringMarshalableToPlistValue env m = Return (Some (plistValue String (V_bytes s))) None"
    if "MarshalText env m = Inr (s, None)"
    using that by (simp add: stringMarshalableToPlistValue_def)
  have err: "stringMarshalableToPlistValue env m = Return None (Some (TextMarshalerError err))"
    if "MarshalText env m = Inr (s, Some err)"
    using that by (simp add: stringMarshalableToPlistValue_def)
  note d = text_marshaler_delegation[OF assms, of env m]
  show ?thesis
  proof (intro conjI impI, goal_cases)
    case 1
    then show ?case using d ok by simp
  next
    case 2
    then show ?case using d err by simp
  next
    case 3
    then show ?case using d ok by simp
  next
    case 4
    then show ?case using d err by simp
  qed
qed

text \<open>
  The theorem at a struct whose type has the method, and at an addressable int whose
  pointer type has the method and whose MarshalText returns an error.
\<close>

theorem text_marshaler_precedence_witness:
  "Value_Type a_stamp = Inr stamp_type \<and> CanInterface a_stamp \<and>
   Implements stamps stamp_type textMarshalerType \<and>
   Interface_TextMarshaler a_stamp = Inr (stamp_type, D_struct []) \<and>
   MarshalText stamps (stamp_type, D_struct []) = Inr ([0x6F, 0x6B], None) \<and>
   valueToPlistValue stamps a_stamp = Return (Some (plistValue String (V_bytes [0x6F, 0x6B]))) None \<and>
   Value_Type a_seal = Inr seal_type \<and> \<not> Implements stamps seal_type textMarshalerType \<and>
   CanAddr a_seal \<and> CanInterface (Addr a_seal) \<and>
   Implements stamps (PtrTo seal_type) textMarshalerType \<and>
   Interface_TextMarshaler (Addr a_seal) = Inr (PtrTo seal_type, D_ptr (Some (D_int 7))) \<and>
   MarshalText stamps (PtrTo seal_type, D_ptr (Some (D_int 7))) = Inr ([], Some ''broken seal'') \<and>
   valueToPlistValue stamps a_seal = Return None (Some (TextMarshalerError ''broken seal''))"
proof -
  have t1: "Value_Type a_stamp = Inr stamp_type"
    by (simp add: stamps_def stamp_type_def seal_type_def textMarshalerType_def a_stamp_def eval_defs)
  have h1: "CanInterface a_stamp \<and> Implements stamps stamp_type textMarshalerType \<and>
      Interface_TextMarshaler a_stamp = Inr (stamp_type, D_struct []) \<and>
      MarshalText stamps (stamp_type, D_struct []) = Inr ([0x6F, 0x6B], None)"
    by (simp add: stamps_def stamp_type_def seal_type_def textMarshalerType_def a_stamp_def eval_defs)
  note r1 = text_marshaler_precedence[OF t1, of stamps "(stamp_type, D_struct [])" "[0x6F, 0x6B]",
      THEN conjunct1, THEN mp, OF h1]
  have t2: "Value_Type a_seal = Inr seal_type"
    by (simp add: stamps_def stamp_type_def seal_type_def textMarshalerType_def a_seal_def eval_defs)
  have n2: "\<not> Implements stamps seal_type textMarshalerType"
    by (simp add: stamps_def stamp_type_def seal_type_def textMarshalerType_def)
  have h2: "CanAddr a_seal \<and> CanInterface (Addr a_seal) \<and>
      Implements stamps (PtrTo seal_type) textMarshalerType \<and>
      Interface_TextMarshaler (Addr a_seal) = Inr (PtrTo seal_type, D_ptr (Some (D_int 7))) \<and>
      MarshalText stamps (PtrTo seal_type, D_ptr (Some (D_int 7))) = Inr ([], Some ''broken seal'')"
    by (simp add: stamps_def stamp_type_def seal_type_def textMarshalerType_def a_seal_def eval_defs)
  from n2 h2 have h2': "\<not> (CanInterface a_seal \<and> Implements stamps seal_type textMarshalerType) \<and>
      CanAddr a_seal \<and> CanInterface (Addr a_seal) \<and>
      Implements stamps (PtrTo seal_type) textMarshalerType \<and>
      Interface_TextMarshaler (Addr a_seal) = Inr (PtrTo seal_type, D_ptr (Some (D_int 7))) \<and>
      MarshalText stamps (PtrTo seal_type, D_ptr (Some (D_int 7))) = Inr ([], Some ''broken seal'')"
    by blast
  note r2 = text_marshaler_precedence[OF t2, of stamps "(PtrTo seal_type, D_ptr (Some (D_int 7)))"
      "[]" "''broken seal''", THEN conjunct2, THEN conjunct2, THEN conjunct2, THEN mp, OF h2']
  from t1 h1 r1 t2 n2 h2 r2 show ?thesis by blast
qed

subsection \<open>Sequences\<close>

lemma kind_switch_seq:
  "Type_Kind typ' \<in> {reflect_Slice, reflect_Array} \<Longrightarrow>
   Type_Kind (Type_Elem typ') \<noteq> reflect_Uint8 \<Longrightarrow>
   kind_switch env val' typ' =
     (case array_loop env val' of
        Inl r \<Rightarrow> r
      | Inr subvalues \<Rightarrow> Return (Some (plistValue Array (V_slice subvalues))) None)"
  by (auto simp: kind_switch_def)

lemma upt_split: "i < n \<Longrightarrow> [0 ..< n] = [0 ..< i] @ i # [Suc i ..< n]"
  using upt_add_eq_append[of 0 i "n - i"] by (simp add: upt_conv_Cons)

text \<open>
  What the loop of lines 135 to 143 does. A slice or array whose element kind is not
  Uint8, reached by the switch on the kind, converts to an Array node that holds the
  converted elements in the order of the source, when every element converts. When the
  conversion of an element returns an error and all elements before it convert, the
  whole conversion returns that error and no Array. When the conversion of an element
  panics and all elements before it convert, the whole conversion panics.
\<close>

lemma sequence_to_Array:
  assumes "dispatches env val val' typ'"
    and "Type_Kind typ' \<in> {reflect_Slice, reflect_Array}"
    and "Type_Kind (Type_Elem typ') \<noteq> reflect_Uint8"
  shows
    "((\<forall>i<Len val'. \<exists>v. valueToPlistValue env (Index val' i) = Return v None) \<longrightarrow>
        valueToPlistValue env val =
          Return (Some (plistValue Array
                    (V_slice (map (\<lambda>i. returned (valueToPlistValue env (Index val' i)))
                                [0 ..< Len val'])))) None) \<and>
     (\<forall>i v err.
        i < Len val' \<longrightarrow>
        (\<forall>j<i. \<exists>u. valueToPlistValue env (Index val' j) = Return u None) \<longrightarrow>
        valueToPlistValue env (Index val' i) = Return v (Some err) \<longrightarrow>
        valueToPlistValue env val = Return None (Some err))"
proof -
  have not_struct: "Type_Kind typ' \<noteq> reflect_Struct"
    using assms(2) by auto
  have eq: "valueToPlistValue env val =
      (case array_loop env val' of
         Inl r \<Rightarrow> r
       | Inr subvalues \<Rightarrow> Return (Some (plistValue Array (V_slice subvalues))) None)"
    using valueToPlistValue_dispatches[OF assms(1)] kind_switch_seq[OF assms(2,3)] not_struct
    by simp
  have ok: "array_loop env val' =
      Inr (map (\<lambda>i. returned (valueToPlistValue env (Index val' i))) [0 ..< Len val'])"
    if "\<forall>i<Len val'. \<exists>v. valueToPlistValue env (Index val' i) = Return v None"
    unfolding array_loop_def
    by (subst for_range_ok'[where conv = "\<lambda>i. valueToPlistValue env (Index val' i)"])
      (use that in \<open>simp_all add: fold_list_update_upt\<close>)
  have abort: "array_loop env val' = Inl (Return None (Some err))"
    if "i < Len val'"
      and "\<forall>j<i. \<exists>u. valueToPlistValue env (Index val' j) = Return u None"
      and "valueToPlistValue env (Index val' i) = Return v (Some err)" for i v err
    unfolding array_loop_def
    by (rule for_range_abort'[where conv = "\<lambda>i. valueToPlistValue env (Index val' i)"
          and pre = "[0 ..< i]" and x = i and post = "[Suc i ..< Len val']" and v = v])
      (use that upt_split[of i "Len val'"] in simp_all)
  show ?thesis
    using ok abort by (simp add: eq)
qed

lemma sequence_element_panic:
  assumes "dispatches env val val' typ'"
    and "Type_Kind typ' \<in> {reflect_Slice, reflect_Array}"
    and "Type_Kind (Type_Elem typ') \<noteq> reflect_Uint8"
    and "i < Len val'"
    and "\<forall>j<i. \<exists>u. valueToPlistValue env (Index val' j) = Return u None"
    and "valueToPlistValue env (Index val' i) = Panic p"
  shows "valueToPlistValue env val = Panic p"
proof -
  have not_struct: "Type_Kind typ' \<noteq> reflect_Struct"
    using assms(2) by auto
  have eq: "valueToPlistValue env val =
      (case array_loop env val' of
         Inl r \<Rightarrow> r
       | Inr subvalues \<Rightarrow> Return (Some (plistValue Array (V_slice subvalues))) None)"
    using valueToPlistValue_dispatches[OF assms(1)] kind_switch_seq[OF assms(2,3)] not_struct
    by simp
  have "array_loop env val' = Inl (Panic p)"
    unfolding array_loop_def
    by (rule for_range_panic'[where conv = "\<lambda>i. valueToPlistValue env (Index val' i)"
          and pre = "[0 ..< i]" and x = i and post = "[Suc i ..< Len val']"])
      (use assms(4-6) upt_split[of i "Len val'"] in simp_all)
  then show ?thesis by (simp add: eq)
qed

text \<open>
  The lemma \<open>sequence_to_Array\<close> at a slice of two ints, and at a slice of three
  interfaces whose second holds a function.
\<close>

lemma sequence_to_Array_example:
  "dispatches no_marshalers int_slice int_slice (SliceOf (Predeclared reflect_Int)) \<and>
   valueToPlistValue no_marshalers int_slice =
     Return (Some (plistValue Array
               (V_slice [Some (plistValue Integer (V_int64 1)),
                         Some (plistValue Integer (V_int64 2))]))) None \<and>
   dispatches no_marshalers mixed_slice mixed_slice
     (SliceOf (Literal reflect_Interface ''interface {}'')) \<and>
   valueToPlistValue no_marshalers mixed_slice =
     Return None (Some (UnknownTypeError (Literal reflect_Func ''func()'')))"
proof -
  have d1: "dispatches no_marshalers int_slice int_slice (SliceOf (Predeclared reflect_Int))"
    by (simp add: int_slice_def eval_defs)
  have d2: "dispatches no_marshalers mixed_slice mixed_slice
              (SliceOf (Literal reflect_Interface ''interface {}''))"
    by (simp add: mixed_slice_def eval_defs)
  have r1: "valueToPlistValue no_marshalers int_slice =
     Return (Some (plistValue Array
               (V_slice [Some (plistValue Integer (V_int64 1)),
                         Some (plistValue Integer (V_int64 2))]))) None"
    using sequence_to_Array[OF d1, THEN conjunct1]
    by (simp add: int_slice_def eval_defs valueToPlistValue_eq kind_switch_def
          less_Suc_eq all_conj_distrib)
  have r2: "valueToPlistValue no_marshalers mixed_slice =
     Return None (Some (UnknownTypeError (Literal reflect_Func ''func()'')))"
    using sequence_to_Array[OF d2, THEN conjunct2, rule_format, of 1]
    by (simp add: mixed_slice_def eval_defs valueToPlistValue_eq kind_switch_def)
  from d1 d2 r1 r2 show ?thesis by simp
qed

text \<open>
  Claim C4. The slice \<open>[]interface{}{1, nil}\<close> has an element kind other than Uint8
  and reaches the switch on the kind, yet its conversion yields neither an Array nor an
  error: the call for its second element unwraps the nil interface on line 105 and
  panics on line 106, the defect of claim C1, and the panic ends the whole conversion.
\<close>

theorem nil_element_panics:
  "dispatches no_marshalers nil_element_slice nil_element_slice
     (SliceOf (Literal reflect_Interface ''interface {}'')) \<and>
   Type_Kind (Type_Elem (SliceOf (Literal reflect_Interface ''interface {}''))) = reflect_Interface \<and>
   valueToPlistValue no_marshalers (Index nil_element_slice 0) =
     Return (Some (plistValue Integer (V_int64 1))) None \<and>
   valueToPlistValue no_marshalers (Index nil_element_slice 1) =
     Panic (ValueError ''reflect.Value.Type'' reflect_Invalid) \<and>
   valueToPlistValue no_marshalers nil_element_slice =
     Panic (ValueError ''reflect.Value.Type'' reflect_Invalid)"
  by (simp add: valueToPlistValue_eq kind_switch_def array_loop_def store_or_return_def
        nil_element_slice_def eval_defs)

subsection \<open>Maps\<close>

lemma kind_switch_map:
  "Type_Kind typ' = reflect_Map \<Longrightarrow>
   kind_switch env val' typ' =
     (if Type_Kind (Type_Key typ') \<noteq> reflect_String
      then Return None (Some (UnknownTypeError typ'))
      else (case map_loop env val' of
              Inl r \<Rightarrow> r
            | Inr subvalues \<Rightarrow> Return (Some (plistValue Dictionary (V_map subvalues))) None))"
  by (simp add: kind_switch_def)

lemma map_loop_ok:
  assumes "\<forall>keyv\<in>set (MapKeys val'). \<exists>v. valueToPlistValue env (MapIndex val' keyv) = Return v None"
  shows "map_loop env val' = Inr (assign_all (map_entries env val'))"
  unfolding map_loop_def
  by (subst for_range_ok'[where conv = "\<lambda>keyv. valueToPlistValue env (MapIndex val' keyv)"])
    (use assms in \<open>simp_all add: assign_all_def map_entries_def fold_assign\<close>)

lemma map_loop_abort:
  assumes "MapKeys val' = pre @ keyv # post"
    and "\<forall>k\<in>set pre. \<exists>u. valueToPlistValue env (MapIndex val' k) = Return u None"
    and "valueToPlistValue env (MapIndex val' keyv) = Return v (Some err)"
  shows "map_loop env val' = Inl (Return None (Some err))"
  unfolding map_loop_def
  by (rule for_range_abort'[where conv = "\<lambda>keyv. valueToPlistValue env (MapIndex val' keyv)"
        and pre = pre and x = keyv and post = post and v = v])
    (use assms in simp_all)

text \<open>
  What lines 145 to 159 do. A map reached by the switch on the kind whose key kind is
  not String converts to UnknownTypeError with the type of the map. A map with key kind
  String, when every value converts, converts to a Dictionary that holds the assignments
  \<open>subvalues[key] = converted value\<close> in iteration order: its keys are the keys of the
  map and, the keys of a map being different strings, it has as many entries as the map
  and holds under every key the converted value. When the conversion of a value returns
  an error and the values visited before it convert, the whole conversion returns that
  error. When the conversion of a value panics and the values visited before it convert,
  the whole conversion panics.
\<close>

lemma map_to_Dictionary:
  assumes "dispatches env val val' typ'"
    and "Type_Kind typ' = reflect_Map"
  shows
    "(Type_Kind (Type_Key typ') \<noteq> reflect_String \<longrightarrow>
        valueToPlistValue env val = Return None (Some (UnknownTypeError typ'))) \<and>
     (Type_Kind (Type_Key typ') = reflect_String \<longrightarrow>
        ((\<forall>keyv\<in>set (MapKeys val').
             \<exists>v. valueToPlistValue env (MapIndex val' keyv) = Return v None) \<longrightarrow>
           valueToPlistValue env val =
             Return (Some (plistValue Dictionary (V_map (assign_all (map_entries env val'))))) None \<and>
           dom (assign_all (map_entries env val')) = Value_String ` set (MapKeys val') \<and>
           (distinct (map Value_String (MapKeys val')) \<longrightarrow>
              card (dom (assign_all (map_entries env val'))) = length (MapKeys val') \<and>
              (\<forall>keyv\<in>set (MapKeys val').
                 assign_all (map_entries env val') (Value_String keyv) =
                   Some (returned (valueToPlistValue env (MapIndex val' keyv)))))) \<and>
        (\<forall>pre keyv post v err.
           MapKeys val' = pre @ keyv # post \<longrightarrow>
           (\<forall>k\<in>set pre. \<exists>u. valueToPlistValue env (MapIndex val' k) = Return u None) \<longrightarrow>
           valueToPlistValue env (MapIndex val' keyv) = Return v (Some err) \<longrightarrow>
           valueToPlistValue env val = Return None (Some err)))"
proof -
  have eq: "valueToPlistValue env val = kind_switch env val' typ'"
    using valueToPlistValue_dispatches[OF assms(1)] assms(2) by simp
  note ks = kind_switch_map[OF assms(2), of env val']
  have fst_entries: "map fst (map_entries env val') = map Value_String (MapKeys val')"
    by (simp add: map_entries_def comp_def)
  have dom: "dom (assign_all (map_entries env val')) = Value_String ` set (MapKeys val')"
    using dom_assign_all[of "map_entries env val'"] fst_entries
    by (metis list.set_map)
  have card: "card (dom (assign_all (map_entries env val'))) = length (MapKeys val')"
    if "distinct (map Value_String (MapKeys val'))"
  proof -
    have "distinct (map fst (map_entries env val'))"
      using that by (simp only: fst_entries)
    then have "card (dom (assign_all (map_entries env val'))) = length (map_entries env val')"
      by (rule card_dom_assign_all)
    then show ?thesis by (simp add: map_entries_def)
  qed
  have lookup: "assign_all (map_entries env val') (Value_String keyv) =
      Some (returned (valueToPlistValue env (MapIndex val' keyv)))"
    if "distinct (map Value_String (MapKeys val'))" "keyv \<in> set (MapKeys val')" for keyv
  proof (rule assign_all_distinct)
    show "distinct (map fst (map_entries env val'))"
      using that(1) by (simp only: fst_entries)
    show "(Value_String keyv, returned (valueToPlistValue env (MapIndex val' keyv))) \<in>
        set (map_entries env val')"
      using that(2) by (auto simp: map_entries_def)
  qed
  show ?thesis
    unfolding eq ks
    using map_loop_ok[of val' env] map_loop_abort[of val' _ _ _ env] dom card lookup
    by (auto simp del: set_map)
qed

lemma map_value_panic:
  assumes "dispatches env val val' typ'"
    and "Type_Kind typ' = reflect_Map"
    and "Type_Kind (Type_Key typ') = reflect_String"
    and "MapKeys val' = pre @ keyv # post"
    and "\<forall>k\<in>set pre. \<exists>u. valueToPlistValue env (MapIndex val' k) = Return u None"
    and "valueToPlistValue env (MapIndex val' keyv) = Panic p"
  shows "valueToPlistValue env val = Panic p"
proof -
  have eq: "valueToPlistValue env val = kind_switch env val' typ'"
    using valueToPlistValue_dispatches[OF assms(1)] assms(2) by simp
  have "map_loop env val' = Inl (Panic p)"
    unfolding map_loop_def
    by (rule for_range_panic'[where conv = "\<lambda>keyv. valueToPlistValue env (MapIndex val' keyv)"
          and pre = pre and x = keyv and post = post])
      (use assms(4-6) in simp_all)
  then show ?thesis
    by (simp add: eq kind_switch_map[OF assms(2)] assms(3))
qed

text \<open>
  The lemma \<open>map_to_Dictionary\<close> at the map \<open>{"a": 1, "b": 2}\<close>, at a map from int to
  int, and at a map with a function as its second value.
\<close>

lemma map_to_Dictionary_example:
  "dispatches no_marshalers int_map int_map
     (MapOf (Predeclared reflect_String) (Predeclared reflect_Int)) \<and>
   valueToPlistValue no_marshalers int_map =
     Return (Some (plistValue Dictionary
               (V_map [''a'' \<mapsto> Some (plistValue Integer (V_int64 1)),
                       ''b'' \<mapsto> Some (plistValue Integer (V_int64 2))]))) None \<and>
   card (dom (assign_all (map_entries no_marshalers int_map))) = 2 \<and>
   dispatches no_marshalers int_keyed_map int_keyed_map
     (MapOf (Predeclared reflect_Int) (Predeclared reflect_Int)) \<and>
   valueToPlistValue no_marshalers int_keyed_map =
     Return None (Some (UnknownTypeError (MapOf (Predeclared reflect_Int) (Predeclared reflect_Int)))) \<and>
   dispatches no_marshalers func_map func_map
     (MapOf (Predeclared reflect_String) (Literal reflect_Interface ''interface {}'')) \<and>
   valueToPlistValue no_marshalers func_map =
     Return None (Some (UnknownTypeError (Literal reflect_Func ''func()'')))"
proof -
  note ev = eval_defs valueToPlistValue_eq kind_switch_def
  have d1: "dispatches no_marshalers int_map int_map
      (MapOf (Predeclared reflect_String) (Predeclared reflect_Int))"
    by (simp add: int_map_def eval_defs)
  have d2: "dispatches no_marshalers int_keyed_map int_keyed_map
      (MapOf (Predeclared reflect_Int) (Predeclared reflect_Int))"
    by (simp add: int_keyed_map_def eval_defs)
  have d3: "dispatches no_marshalers func_map func_map
      (MapOf (Predeclared reflect_String) (Literal reflect_Interface ''interface {}''))"
    by (simp add: func_map_def eval_defs)
  have m1: "Type_Kind (MapOf (Predeclared reflect_String) (Predeclared reflect_Int)) = reflect_Map"
    and m2: "Type_Kind (MapOf (Predeclared reflect_Int) (Predeclared reflect_Int)) = reflect_Map"
    and m3: "Type_Kind (MapOf (Predeclared reflect_String)
               (Literal reflect_Interface ''interface {}'')) = reflect_Map"
    by simp_all
  have k1: "Type_Kind (Type_Key (MapOf (Predeclared reflect_String) (Predeclared reflect_Int))) =
      reflect_String"
    by simp
  have ok1: "\<forall>keyv\<in>set (MapKeys int_map).
      \<exists>v. valueToPlistValue no_marshalers (MapIndex int_map keyv) = Return v None"
    by (simp add: int_map_def ev)
  have dist1: "distinct (map Value_String (MapKeys int_map))"
    by (simp add: int_map_def ev)
  have len1: "length (MapKeys int_map) = 2"
    by (simp add: int_map_def ev)
  have ent1: "assign_all (map_entries no_marshalers int_map) =
      [''a'' \<mapsto> Some (plistValue Integer (V_int64 1)),
       ''b'' \<mapsto> Some (plistValue Integer (V_int64 2))]"
    by (simp add: map_entries_def int_map_def ev)
  note t1 = map_to_Dictionary[OF d1 m1, THEN conjunct2, THEN mp, OF k1, THEN conjunct1, THEN mp,
      OF ok1]
  have r1: "valueToPlistValue no_marshalers int_map =
     Return (Some (plistValue Dictionary
               (V_map [''a'' \<mapsto> Some (plistValue Integer (V_int64 1)),
                       ''b'' \<mapsto> Some (plistValue Integer (V_int64 2))]))) None"
    using t1 by (simp add: ent1)
  have c1: "card (dom (assign_all (map_entries no_marshalers int_map))) = 2"
    using t1[THEN conjunct2, THEN conjunct2, THEN mp, OF dist1, THEN conjunct1]
    unfolding len1 .
  have k2: "Type_Kind (Type_Key (MapOf (Predeclared reflect_Int) (Predeclared reflect_Int))) \<noteq>
      reflect_String"
    by simp
  have r2: "valueToPlistValue no_marshalers int_keyed_map =
     Return None (Some (UnknownTypeError (MapOf (Predeclared reflect_Int) (Predeclared reflect_Int))))"
    using map_to_Dictionary[OF d2 m2, THEN conjunct1] k2 by simp
  have k3: "Type_Kind (Type_Key (MapOf (Predeclared reflect_String)
      (Literal reflect_Interface ''interface {}''))) = reflect_String"
    by simp
  have keys3: "MapKeys func_map =
      [ValueOf (Predeclared reflect_String) (D_string ''a'')] @
      ValueOf (Predeclared reflect_String) (D_string ''b'') #
      [ValueOf (Predeclared reflect_String) (D_string ''c'')]"
    by (simp add: func_map_def ev)
  have pre3: "\<forall>k\<in>set [ValueOf (Predeclared reflect_String) (D_string ''a'')].
      \<exists>u. valueToPlistValue no_marshalers (MapIndex func_map k) = Return u None"
    by (simp add: func_map_def ev)
  have bad3: "valueToPlistValue no_marshalers
      (MapIndex func_map (ValueOf (Predeclared reflect_String) (D_string ''b''))) =
      Return None (Some (UnknownTypeError (Literal reflect_Func ''func()'')))"
    by (simp add: func_map_def ev)
  have r3: "valueToPlistValue no_marshalers func_map =
     Return None (Some (UnknownTypeError (Literal reflect_Func ''func()'')))"
    using map_to_Dictionary[OF d3 m3, THEN conjunct2, THEN mp, OF k3, THEN conjunct2]
      keys3 pre3 bad3 by blast
  from d1 r1 c1 d2 r2 d3 r3 show ?thesis by blast
qed

text \<open>
  Claim C5. The map \<open>map[string]interface{}{"a": nil}\<close> is keyed by text and reaches
  the switch on the kind, yet its conversion yields neither a Dictionary nor an error:
  the call for its value unwraps the nil interface on line 105 and panics on line 106,
  the defect of claim C1, and the panic ends the whole conversion.
\<close>

theorem nil_map_value_panics:
  "dispatches no_marshalers nil_value_map nil_value_map
     (MapOf (Predeclared reflect_String) (Literal reflect_Interface ''interface {}'')) \<and>
   Type_Kind (Type_Key (MapOf (Predeclared reflect_String)
     (Literal reflect_Interface ''interface {}''))) = reflect_String \<and>
   MapKeys nil_value_map = [ValueOf (Predeclared reflect_String) (D_string ''a'')] \<and>
   valueToPlistValue no_marshalers
     (MapIndex nil_value_map (ValueOf (Predeclared reflect_String) (D_string ''a''))) =
     Panic (ValueError ''reflect.Value.Type'' reflect_Invalid) \<and>
   valueToPlistValue no_marshalers nil_value_map =
     Panic (ValueError ''reflect.Value.Type'' reflect_Invalid)"
  by (simp add: valueToPlistValue_eq kind_switch_def map_loop_def store_or_return_def
        nil_value_map_def eval_defs)

subsection \<open>Structs\<close>

lemma field_loop_omitted:
  "field_loop env t val =
     for_range (\<lambda>finfo subvalues.
                  if omitted finfo val then Inr subvalues
                  else store_or_return (valueToPlistValue env (fieldInfo_value finfo val))
                         (\<lambda>v. subvalues(name finfo \<mapsto> v)))
       (typeInfo.fields (getTypeInfo env t)) Map.empty"
  by (simp add: field_loop_def omitted_def)

lemma field_loop_ok:
  assumes "\<forall>finfo\<in>set (typeInfo.fields (getTypeInfo env t)). \<not> omitted finfo val \<longrightarrow>
             (\<exists>v. valueToPlistValue env (fieldInfo_value finfo val) = Return v None)"
  shows "field_loop env t val = Inr (assign_all (field_entries env t val))"
  unfolding field_loop_omitted
  by (subst for_range_ok[where conv = "\<lambda>finfo. valueToPlistValue env (fieldInfo_value finfo val)"])
    (use assms in \<open>simp_all add: assign_all_def field_entries_def fold_assign\<close>)

lemma field_loop_abort:
  assumes "typeInfo.fields (getTypeInfo env t) = pre @ finfo # post"
    and "\<forall>g\<in>set pre. \<not> omitted g val \<longrightarrow>
           (\<exists>u. valueToPlistValue env (fieldInfo_value g val) = Return u None)"
    and "\<not> omitted finfo val"
    and "valueToPlistValue env (fieldInfo_value finfo val) = Return v (Some err)"
  shows "field_loop env t val = Inl (Return None (Some err))"
  unfolding field_loop_omitted
  by (rule for_range_abort[where conv = "\<lambda>finfo. valueToPlistValue env (fieldInfo_value finfo val)"
        and pre = pre and x = finfo and post = post and v = v])
    (use assms in simp_all)

lemma field_entries_lookup:
  assumes "distinct (map name (typeInfo.fields (getTypeInfo env t)))"
    and "finfo \<in> set (typeInfo.fields (getTypeInfo env t))"
  shows "assign_all (field_entries env t val) (name finfo) =
     (if omitted finfo val then None
      else Some (returned (valueToPlistValue env (fieldInfo_value finfo val))))"
proof -
  let ?fs = "typeInfo.fields (getTypeInfo env t)"
  have fst_entries: "map fst (field_entries env t val) =
      map name (filter (\<lambda>finfo. \<not> omitted finfo val) ?fs)"
    by (simp add: field_entries_def comp_def)
  have dist: "distinct (map fst (field_entries env t val))"
    unfolding fst_entries using assms(1) by (rule distinct_map_filter)
  have inj: "inj_on name (set ?fs)"
    using assms(1) by (simp add: distinct_map)
  show ?thesis
  proof (cases "omitted finfo val")
    case True
    have "name finfo \<notin> fst ` set (field_entries env t val)"
    proof
      assume "name finfo \<in> fst ` set (field_entries env t val)"
      then have "name finfo \<in> set (map fst (field_entries env t val))" by simp
      then obtain g where g: "g \<in> set ?fs" "\<not> omitted g val" "name g = name finfo"
        unfolding fst_entries by auto
      with inj assms(2) have "g = finfo" by (auto dest: inj_onD)
      with g True show False by simp
    qed
    then have "name finfo \<notin> dom (assign_all (field_entries env t val))"
      by (simp add: dom_assign_all)
    with True show ?thesis by auto
  next
    case False
    with assms(2) have "(name finfo, returned (valueToPlistValue env (fieldInfo_value finfo val))) \<in>
        set (field_entries env t val)"
      by (auto simp: field_entries_def)
    with dist False show ?thesis by (simp add: assign_all_distinct)
  qed
qed

lemma struct_to_Dictionary_general:
  assumes "dispatches env val val' typ'" and "Type_Kind typ' = reflect_Struct"
  shows
    "((\<forall>finfo\<in>set (typeInfo.fields (getTypeInfo env typ')). \<not> omitted finfo val' \<longrightarrow>
          (\<exists>v. valueToPlistValue env (fieldInfo_value finfo val') = Return v None)) \<longrightarrow>
        valueToPlistValue env val =
          Return (Some (plistValue Dictionary (V_map (assign_all (field_entries env typ' val'))))) None \<and>
        (distinct (map name (typeInfo.fields (getTypeInfo env typ'))) \<longrightarrow>
           (\<forall>finfo\<in>set (typeInfo.fields (getTypeInfo env typ')).
              assign_all (field_entries env typ' val') (name finfo) =
                (if omitted finfo val' then None
                 else Some (returned (valueToPlistValue env (fieldInfo_value finfo val'))))))) \<and>
     (\<forall>pre finfo post v err.
        typeInfo.fields (getTypeInfo env typ') = pre @ finfo # post \<longrightarrow>
        (\<forall>g\<in>set pre. \<not> omitted g val' \<longrightarrow>
           (\<exists>u. valueToPlistValue env (fieldInfo_value g val') = Return u None)) \<longrightarrow>
        \<not> omitted finfo val' \<longrightarrow>
        valueToPlistValue env (fieldInfo_value finfo val') = Return v (Some err) \<longrightarrow>
        valueToPlistValue env val = Return None (Some err))"
proof -
  have eq: "valueToPlistValue env val =
      (case field_loop env typ' val' of
         Inl r \<Rightarrow> r
       | Inr subvalues \<Rightarrow> Return (Some (plistValue Dictionary (V_map subvalues))) None)"
    using valueToPlistValue_dispatches[OF assms(1)] assms(2) by (simp add: structToPlistValue_eq)
  show ?thesis
  proof (intro conjI impI allI ballI, goal_cases)
    case 1
    then show ?case by (simp add: eq field_loop_ok)
  next
    case (2 finfo)
    then show ?case by (intro field_entries_lookup)
  next
    case (3 pre finfo post v err)
    then show ?case by (simp add: eq field_loop_abort[where pre = pre and finfo = finfo and v = v])
  qed
qed

lemma empty_record_example:
  "valueToPlistValue record_provider empty_record =
     Return (Some (plistValue Dictionary
               (V_map [''Count'' \<mapsto> Some (plistValue Integer (V_int64 0))]))) None"
  by (simp add: valueToPlistValue_eq structToPlistValue_eq field_loop_def kind_switch_def
        store_or_return_def record_provider_def record_type_def empty_record_def eval_defs)

text \<open>
  What \<open>structToPlistValue\<close> does, with the example of the spec. A struct reached by
  line 109 is converted field descriptor by field descriptor, in the provider's order. A field is omitted when its value is invalid, or
  when its omit-if-empty flag is set and \<open>isEmptyValue\<close> holds of its value. When
  every field that is not omitted converts, the result is a Dictionary that holds the
  assignments \<open>subvalues[name] = converted value\<close> of these fields in order; the names of
  the descriptors being different, the key of a field is absent exactly when the field
  is omitted and otherwise holds the converted value. When the conversion of a field
  that is not omitted returns an error and the fields before it convert or are omitted,
  the whole conversion returns that error. In particular the record with
  \<open>Name = ""\<close> (omit if empty) and \<open>Count = 0\<close> converts to the Dictionary with the
  single entry \<open>Count\<close>, the Integer 0.
\<close>

lemma struct_to_Dictionary:
  "(dispatches env val val' typ' \<and> Type_Kind typ' = reflect_Struct \<longrightarrow>
      ((\<forall>finfo\<in>set (typeInfo.fields (getTypeInfo env typ')). \<not> omitted finfo val' \<longrightarrow>
           (\<exists>v. valueToPlistValue env (fieldInfo_value finfo val') = Return v None)) \<longrightarrow>
         valueToPlistValue env val =
           Return (Some (plistValue Dictionary (V_map (assign_all (field_entries env typ' val'))))) None \<and>
         (distinct (map name (typeInfo.fields (getTypeInfo env typ'))) \<longrightarrow>
            (\<forall>finfo\<in>set (typeInfo.fields (getTypeInfo env typ')).
               assign_all (field_entries env typ' val') (name finfo) =
                 (if omitted finfo val' then None
                  else Some (returned (valueToPlistValue env (fieldInfo_value finfo val'))))))) \<and>
      (\<forall>pre finfo post v err.
         typeInfo.fields (getTypeInfo env typ') = pre @ finfo # post \<longrightarrow>
         (\<forall>g\<in>set pre. \<not> omitted g val' \<longrightarrow>
            (\<exists>u. valueToPlistValue env (fieldInfo_value g val') = Return u None)) \<longrightarrow>
         \<not> omitted finfo val' \<longrightarrow>
         valueToPlistValue env (fieldInfo_value finfo val') = Return v (Some err) \<longrightarrow>
         valueToPlistValue env val = Return None (Some err))) \<and>
   valueToPlistValue record_provider empty_record =
     Return (Some (plistValue Dictionary
               (V_map [''Count'' \<mapsto> Some (plistValue Integer (V_int64 0))]))) None"
  using struct_to_Dictionary_general[of env val val' typ'] empty_record_example by blast

lemma struct_field_panic:
  assumes "dispatches env val val' typ'" and "Type_Kind typ' = reflect_Struct"
    and "typeInfo.fields (getTypeInfo env typ') = pre @ finfo # post"
    and "\<forall>g\<in>set pre. \<not> omitted g val' \<longrightarrow>
           (\<exists>u. valueToPlistValue env (fieldInfo_value g val') = Return u None)"
    and "\<not> omitted finfo val'"
    and "valueToPlistValue env (fieldInfo_value finfo val') = Panic p"
  shows "valueToPlistValue env val = Panic p"
proof -
  have eq: "valueToPlistValue env val =
      (case field_loop env typ' val' of
         Inl r \<Rightarrow> r
       | Inr subvalues \<Rightarrow> Return (Some (plistValue Dictionary (V_map subvalues))) None)"
    using valueToPlistValue_dispatches[OF assms(1)] assms(2) by (simp add: structToPlistValue_eq)
  have "field_loop env typ' val' = Inl (Panic p)"
    unfolding field_loop_omitted
    by (rule for_range_panic[where conv = "\<lambda>finfo. valueToPlistValue env (fieldInfo_value finfo val')"
          and pre = pre and x = finfo and post = post])
      (use assms(3-6) in simp_all)
  then show ?thesis by (simp add: eq)
qed

text \<open>
  The lemma \<open>struct_to_Dictionary\<close> at the record of the example, and at a record whose
  first field holds a function.
\<close>

lemma struct_to_Dictionary_example:
  "dispatches record_provider empty_record empty_record record_type \<and>
   valueToPlistValue record_provider empty_record =
     Return (Some (plistValue Dictionary
               (V_map [''Count'' \<mapsto> Some (plistValue Integer (V_int64 0))]))) None \<and>
   assign_all (field_entries record_provider record_type empty_record) ''Name'' = None \<and>
   dispatches record_provider func_record func_record
     (Literal reflect_Struct ''struct { Name func(); Count int }'') \<and>
   valueToPlistValue record_provider func_record =
     Return None (Some (UnknownTypeError (Literal reflect_Func ''func()'')))"
proof -
  note ev = eval_defs valueToPlistValue_eq kind_switch_def record_provider_def record_type_def
    omitted_def
  have d1: "dispatches record_provider empty_record empty_record record_type"
    by (simp add: empty_record_def ev)
  have k1: "Type_Kind record_type = reflect_Struct"
    by (simp add: record_type_def)
  have ok1: "\<forall>finfo\<in>set (typeInfo.fields (getTypeInfo record_provider record_type)).
      \<not> omitted finfo empty_record \<longrightarrow>
      (\<exists>v. valueToPlistValue record_provider (fieldInfo_value finfo empty_record) = Return v None)"
    by (simp add: empty_record_def ev)
  have dist1: "distinct (map name (typeInfo.fields (getTypeInfo record_provider record_type)))"
    by (simp add: ev)
  have ent1: "assign_all (field_entries record_provider record_type empty_record) =
      [''Count'' \<mapsto> Some (plistValue Integer (V_int64 0))]"
    by (simp add: field_entries_def empty_record_def ev)
  note t1 = struct_to_Dictionary[of record_provider empty_record empty_record record_type,
      THEN conjunct1, THEN mp, OF conjI, OF d1 k1, THEN conjunct1, THEN mp, OF ok1]
  have r1: "valueToPlistValue record_provider empty_record =
     Return (Some (plistValue Dictionary
               (V_map [''Count'' \<mapsto> Some (plistValue Integer (V_int64 0))]))) None"
    using t1 by (simp add: ent1)
  have in1: "\<lparr>idx = 0, name = ''Name'', omitEmpty = True\<rparr> \<in>
      set (typeInfo.fields (getTypeInfo record_provider record_type))"
    by (simp add: ev)
  have om1: "omitted \<lparr>idx = 0, name = ''Name'', omitEmpty = True\<rparr> empty_record"
    by (simp add: empty_record_def ev)
  have a1: "assign_all (field_entries record_provider record_type empty_record) ''Name'' = None"
    using t1[THEN conjunct2, THEN mp, OF dist1, THEN bspec, OF in1] om1 by simp
  have d2: "dispatches record_provider func_record func_record
      (Literal reflect_Struct ''struct { Name func(); Count int }'')"
    by (simp add: func_record_def ev)
  have k2: "Type_Kind (Literal reflect_Struct ''struct { Name func(); Count int }'') = reflect_Struct"
    by simp
  have fs2: "typeInfo.fields (getTypeInfo record_provider
        (Literal reflect_Struct ''struct { Name func(); Count int }'')) =
      [] @ \<lparr>idx = 0, name = ''Name'', omitEmpty = True\<rparr> #
      [\<lparr>idx = 1, name = ''Count'', omitEmpty = False\<rparr>]"
    by (simp add: ev)
  have pre2: "\<forall>g\<in>set []. \<not> omitted g func_record \<longrightarrow>
      (\<exists>u. valueToPlistValue record_provider (fieldInfo_value g func_record) = Return u None)"
    by simp
  have no2: "\<not> omitted \<lparr>idx = 0, name = ''Name'', omitEmpty = True\<rparr> func_record"
    by (simp add: func_record_def ev)
  have bad2: "valueToPlistValue record_provider
      (fieldInfo_value \<lparr>idx = 0, name = ''Name'', omitEmpty = True\<rparr> func_record) =
      Return None (Some (UnknownTypeError (Literal reflect_Func ''func()'')))"
    by (simp add: func_record_def ev)
  have r2: "valueToPlistValue record_provider func_record =
     Return None (Some (UnknownTypeError (Literal reflect_Func ''func()'')))"
    using struct_to_Dictionary[of record_provider func_record func_record
        "Literal reflect_Struct ''struct { Name func(); Count int }''",
        THEN conjunct1, THEN mp, OF conjI, OF d2 k2, THEN conjunct2]
      fs2 pre2 no2 bad2 by blast
  from d1 r1 a1 d2 r2 show ?thesis by blast
qed

text \<open>
  Claim C6. The record \<open>PRec{P: nil}\<close>, with one field \<open>P *int\<close> that has no
  omit-if-empty flag, is a struct whose field value is valid and not omitted, so that
  the claim has the key \<open>P\<close> in the Dictionary. Its conversion yields no Dictionary and
  no error: the call for the field, from line 74, unwraps the nil pointer on line 105
  and panics on line 106, the defect of claim C1, and the panic ends the whole
  conversion.
\<close>

theorem nil_pointer_field_panics:
  "dispatches pointer_provider nil_pointer_record nil_pointer_record
     (Defined ''PRec'' (Literal reflect_Struct ''struct { P *int }'')) \<and>
   Type_Kind (Defined ''PRec'' (Literal reflect_Struct ''struct { P *int }'')) = reflect_Struct \<and>
   typeInfo.fields (getTypeInfo pointer_provider
     (Defined ''PRec'' (Literal reflect_Struct ''struct { P *int }''))) =
     [\<lparr>idx = 0, name = ''P'', omitEmpty = False\<rparr>] \<and>
   IsValid (fieldInfo_value \<lparr>idx = 0, name = ''P'', omitEmpty = False\<rparr> nil_pointer_record) \<and>
   \<not> omitEmpty \<lparr>idx = 0, name = ''P'', omitEmpty = False\<rparr> \<and>
   valueToPlistValue pointer_provider nil_pointer_record =
     Panic (ValueError ''reflect.Value.Type'' reflect_Invalid)"
  by (simp add: valueToPlistValue_eq structToPlistValue_eq field_loop_def store_or_return_def
        pointer_provider_def nil_pointer_record_def eval_defs)

subsection \<open>Integers\<close>

lemma kind_switch_uint:
  "Type_Kind typ' \<in> {reflect_Uint, reflect_Uint8, reflect_Uint16, reflect_Uint32, reflect_Uint64} \<Longrightarrow>
   kind_switch env val' typ' = Return (Some (plistValue Integer (V_uint64 (Value_Uint val')))) None"
  by (auto simp: kind_switch_def)

lemma kind_switch_int:
  "Type_Kind typ' \<in> {reflect_Int, reflect_Int8, reflect_Int16, reflect_Int32, reflect_Int64} \<Longrightarrow>
   kind_switch env val' typ' = Return (Some (plistValue Integer (V_int64 (Value_Int val')))) None"
  by (auto simp: kind_switch_def)

lemma kind_switch_uintptr:
  "Type_Kind typ' = reflect_Uintptr \<Longrightarrow>
   kind_switch env val' typ' = Return None (Some (UnknownTypeError typ'))"
  by (simp add: kind_switch_def)

text \<open>
  Claim C7 fails as stated for the unsigned integer type \<open>uintptr\<close>: the switch on the
  kind has no case for Uintptr, so a \<open>uintptr\<close> falls to the default case and is
  refused as an unknown type. (\<open>isEmptyValue\<close>, on line 43, reads a Uintptr with
  \<open>v.Uint()\<close> as it reads the other unsigned kinds.)
\<close>

theorem uintptr_counterexample:
  "valueToPlistValue no_marshalers a_uintptr =
     Return None (Some (UnknownTypeError (Predeclared reflect_Uintptr)))"
  by (simp add: valueToPlistValue_eq kind_switch_def a_uintptr_def eval_defs)

text \<open>
  Claim C7, amended. A value of kind Uint, Uint8, Uint16, Uint32 or Uint64 converts to
  an Integer node whose payload is the \<open>uint64\<close> that \<open>val.Uint()\<close> returns, with
  its magnitude, and never to a node with an \<open>int64\<close> payload; a value of a signed
  integer kind converts to an Integer node whose payload is the \<open>int64\<close> that
  \<open>val.Int()\<close> returns; a value of kind Uintptr is not converted, the result is
  UnknownTypeError with its type.
\<close>

theorem integers_keep_signedness:
  assumes "dispatches env val val' typ'"
  shows
    "(Type_Kind typ' \<in> {reflect_Uint, reflect_Uint8, reflect_Uint16, reflect_Uint32,
                          reflect_Uint64} \<longrightarrow>
        valueToPlistValue env val =
          Return (Some (plistValue Integer (V_uint64 (Value_Uint val')))) None \<and>
        (\<forall>i. returned (valueToPlistValue env val) \<noteq> Some (plistValue Integer (V_int64 i)))) \<and>
     (Type_Kind typ' \<in> {reflect_Int, reflect_Int8, reflect_Int16, reflect_Int32,
                          reflect_Int64} \<longrightarrow>
        valueToPlistValue env val =
          Return (Some (plistValue Integer (V_int64 (Value_Int val')))) None) \<and>
     (Type_Kind typ' = reflect_Uintptr \<longrightarrow>
        valueToPlistValue env val = Return None (Some (UnknownTypeError typ')))"
proof -
  have "valueToPlistValue env val = kind_switch env val' typ'"
    if "Type_Kind typ' \<noteq> reflect_Struct"
    using valueToPlistValue_dispatches[OF assms] that by simp
  then show ?thesis
    by (auto simp: kind_switch_uint kind_switch_int kind_switch_uintptr returned_def)
qed

text \<open>
  The theorem at the largest \<open>uint64\<close>, whose bits read as \<open>int64\<close> are -1, at the
  \<open>int8\<close> -1 and at a \<open>uintptr\<close>.
\<close>

theorem integers_keep_signedness_witness:
  "dispatches no_marshalers max_uint64 max_uint64 (Predeclared reflect_Uint64) \<and>
   valueToPlistValue no_marshalers max_uint64 =
     Return (Some (plistValue Integer (V_uint64 0xFFFFFFFFFFFFFFFF))) None \<and>
   returned (valueToPlistValue no_marshalers max_uint64) \<noteq>
     Some (plistValue Integer (V_int64 (- 1))) \<and>
   dispatches no_marshalers minus_one_int8 minus_one_int8 (Predeclared reflect_Int8) \<and>
   valueToPlistValue no_marshalers minus_one_int8 =
     Return (Some (plistValue Integer (V_int64 (- 1)))) None \<and>
   dispatches no_marshalers a_uintptr a_uintptr (Predeclared reflect_Uintptr) \<and>
   valueToPlistValue no_marshalers a_uintptr =
     Return None (Some (UnknownTypeError (Predeclared reflect_Uintptr)))"
proof -
  have d3: "dispatches no_marshalers a_uintptr a_uintptr (Predeclared reflect_Uintptr)"
    by (simp add: a_uintptr_def eval_defs)
  have k3: "Type_Kind (Predeclared reflect_Uintptr) = reflect_Uintptr"
    by simp
  note p1 = integers_keep_signedness[OF d3, THEN conjunct2, THEN conjunct2, rule_format, OF k3]
  have d1: "dispatches no_marshalers max_uint64 max_uint64 (Predeclared reflect_Uint64)"
    by (simp add: max_uint64_def eval_defs)
  have d2: "dispatches no_marshalers minus_one_int8 minus_one_int8 (Predeclared reflect_Int8)"
    by (simp add: minus_one_int8_def eval_defs)
  have k1: "Type_Kind (Predeclared reflect_Uint64) \<in>
      {reflect_Uint, reflect_Uint8, reflect_Uint16, reflect_Uint32, reflect_Uint64}"
    by simp
  have k2: "Type_Kind (Predeclared reflect_Int8) \<in>
      {reflect_Int, reflect_Int8, reflect_Int16, reflect_Int32, reflect_Int64}"
    by simp
  have v1: "Value_Uint max_uint64 = 0xFFFFFFFFFFFFFFFF"
    by (simp add: max_uint64_def ValueOf_def Value_Uint_def)
  have v2: "Value_Int minus_one_int8 = - 1"
    by (simp add: minus_one_int8_def ValueOf_def Value_Int_def)
  note u = integers_keep_signedness[OF d1, THEN conjunct1, rule_format, OF k1]
  note s = integers_keep_signedness[OF d2, THEN conjunct2, THEN conjunct1, rule_format, OF k2]
  from u have u1: "valueToPlistValue no_marshalers max_uint64 =
     Return (Some (plistValue Integer (V_uint64 0xFFFFFFFFFFFFFFFF))) None"
    unfolding v1 by (rule conjunct1)
  from u have u2: "returned (valueToPlistValue no_marshalers max_uint64) \<noteq>
     Some (plistValue Integer (V_int64 (- 1)))"
    by blast
  from s have s1: "valueToPlistValue no_marshalers minus_one_int8 =
     Return (Some (plistValue Integer (V_int64 (- 1)))) None"
    unfolding v2 .
  from d1 u1 u2 d2 s1 d3 p1 show ?thesis by blast
qed

subsection \<open>Byte sequences\<close>

text \<open>
  Claim C8. A slice that is not addressable and whose element type is a defined type
  of kind Uint8 does not convert to a Data node: line 125 accepts it by its element
  kind, and \<open>reflect.Copy\<close> on line 131 panics, because the element types of its
  destination (\<open>uint8\<close>) and source differ. \<open>byte_sequence_to_Data\<close> below shows the
  conversion for the byte sequences that are addressable or have the element type
  \<open>uint8\<close> itself.
\<close>

theorem named_byte_slice_panics:
  "Type_Kind (Type_Elem (SliceOf (Defined ''MyByte'' (Predeclared reflect_Uint8)))) = reflect_Uint8 \<and>
   valueToPlistValue no_marshalers my_bytes =
     Panic (typesMustMatch (Predeclared reflect_Uint8) (Defined ''MyByte'' (Predeclared reflect_Uint8)))"
  by (simp add: valueToPlistValue_eq kind_switch_def my_bytes_def eval_defs)

lemma byte_sequence_to_Data:
  assumes "dispatches env val val' typ'"
    and "Type_Kind typ' \<in> {reflect_Slice, reflect_Array}"
    and "Type_Kind (Type_Elem typ') = reflect_Uint8"
    and "CanAddr val' \<or> CanInterface val' \<and> Value_Type val' = Inr typ' \<and>
         Type_Elem typ' = Predeclared reflect_Uint8"
  shows "valueToPlistValue env val = Return (Some (plistValue Data (V_bytes (Bytes val')))) None"
proof -
  have "Type_Kind typ' \<noteq> reflect_Struct"
    using assms(2) by auto
  then have "valueToPlistValue env val = kind_switch env val' typ'"
    using valueToPlistValue_dispatches[OF assms(1)] by simp
  also have "\<dots> = Return (Some (plistValue Data (V_bytes (Bytes val')))) None"
    using assms(2-4)
    by (auto simp: kind_switch_def Copy_to_bytes_def Bytes_def CanInterface_def Value_Type_def
          split: Value.splits)
  finally show ?thesis .
qed

subsection \<open>The last return statement\<close>

lemma no_errorString_iff:
  "no_errorString r \<longleftrightarrow> (\<forall>v s. r \<noteq> Return v (Some (errorString s)))"
  by (auto simp: no_errorString_def split: outcome.splits option.splits error.splits)

lemma no_errorString_simps [simp]:
  "no_errorString (Panic p)"
  "no_errorString (Return v None)"
  "no_errorString (Return v (Some (UnknownTypeError t)))"
  "no_errorString (Return v (Some (TextMarshalerError m)))"
  "no_errorString (Return v (Some (errorString s))) = False"
  by (auto simp: no_errorString_iff)

lemma no_errorString_stringMarshalable:
  "no_errorString (stringMarshalableToPlistValue env m)"
  by (auto simp: stringMarshalableToPlistValue_def split: sum.splits prod.splits option.splits)

lemma no_errorString_checkTextMarshaler:
  "checkTextMarshaler env val typ = Some r \<Longrightarrow> no_errorString r"
  by (auto simp: checkTextMarshaler_def Let_def no_errorString_stringMarshalable
           split: if_splits sum.splits)

lemma no_errorString_loop:
  assumes "\<And>x. x \<in> set xs \<Longrightarrow> \<not> skip x \<Longrightarrow> no_errorString (conv x)"
    and "for_range (\<lambda>x s. if skip x then Inr s else store_or_return (conv x) (store x s)) xs s0 = Inl r"
  shows "no_errorString r"
proof -
  from for_range_Inl[OF assms(2)] obtain x u where x: "x \<in> set xs"
    and *: "(if skip x then Inr u else store_or_return (conv x) (store x u)) = Inl r" by blast
  then have k: "\<not> skip x" and "store_or_return (conv x) (store x u) = Inl r"
    by (auto split: if_splits)
  from store_or_return_Inl[OF this(2)] assms(1)[OF x k] show ?thesis
    by (auto simp: no_errorString_iff)
qed

lemma no_errorString_loop':
  assumes "\<And>x. x \<in> set xs \<Longrightarrow> no_errorString (conv x)"
    and "for_range (\<lambda>x s. store_or_return (conv x) (store x s)) xs s0 = Inl r"
  shows "no_errorString r"
  using no_errorString_loop[where skip = "\<lambda>_. False" and conv = conv and xs = xs and r = r
      and store = store and ?s0.0 = s0] assms by simp

lemma no_errorString_kind_switch:
  assumes "\<And>r. array_loop env val = Inl r \<Longrightarrow> no_errorString r"
    and "\<And>r. map_loop env val = Inl r \<Longrightarrow> no_errorString r"
  shows "no_errorString (kind_switch env val t)"
  using assms by (simp add: kind_switch_def split: sum.splits)

lemma no_errorString_valueToPlistValue: "no_errorString (valueToPlistValue env val)"
proof (induction "size val" arbitrary: val rule: less_induct)
  case less
  show ?case
  proof (cases "Value_Type val")
    case (Inl p)
    then show ?thesis by (simp add: valueToPlistValue_eq)
  next
    case (Inr t)
    show ?thesis
    proof (cases "checkTextMarshaler env val t")
      case (Some r)
      with Inr show ?thesis
        by (simp add: valueToPlistValue_eq no_errorString_checkTextMarshaler)
    next
      case None
      show ?thesis
      proof (cases "descend val t")
        case (Inl p)
        with Inr None show ?thesis by (simp add: valueToPlistValue_eq)
      next
        case d: (Inr vt)
        obtain val' t' where vt: "vt = (val', t')" by (cases vt)
        from d vt have le: "size val' \<le> size val" by (auto dest: size_descend)
        have elem: "no_errorString (valueToPlistValue env (Index val' i))" if "i \<in> set [0 ..< Len val']" for i
          using that size_Index[of i val'] le by (intro less) simp
        have entry: "no_errorString (valueToPlistValue env (MapIndex val' keyv))"
          if "keyv \<in> set (MapKeys val')" for keyv
          using that size_MapIndex[of keyv val'] le by (intro less) simp
        have field: "no_errorString (valueToPlistValue env (fieldInfo_value finfo val'))"
          if "IsValid (fieldInfo_value finfo val')" for finfo
          using that size_fieldInfo_value[of finfo val'] le by (intro less) simp
        have a: "no_errorString r" if "array_loop env val' = Inl r" for r
          using that unfolding array_loop_def
          by (rule no_errorString_loop'[where conv = "\<lambda>i. valueToPlistValue env (Index val' i)",
                rotated]) (rule elem)
        have m: "no_errorString r" if "map_loop env val' = Inl r" for r
          using that unfolding map_loop_def
          by (rule no_errorString_loop'[where conv = "\<lambda>keyv. valueToPlistValue env (MapIndex val' keyv)",
                rotated]) (rule entry)
        have f: "no_errorString r" if "field_loop env t' val' = Inl r" for r
          using that unfolding field_loop_def
          by (rule no_errorString_loop[where
              conv = "\<lambda>finfo. valueToPlistValue env (fieldInfo_value finfo val')", rotated])
            (simp add: field)
        have s: "no_errorString (structToPlistValue env t' val')"
          using f by (simp add: structToPlistValue_eq split: sum.splits)
        from Inr None d vt s no_errorString_kind_switch[OF a m] show ?thesis
          by (simp add: valueToPlistValue_eq)
      qed
    qed
  qed
qed

text \<open>
  Claim C10. The \<open>return nil, errors.New("Wat")\<close> that ends \<open>valueToPlistValue\<close>
  is never taken: no call, on any input and in any program, returns that error. Every
  case of the switch on the kind, the default case included, returns or panics itself,
  and an error that comes back from a recursive call or from a MarshalText method is
  never this one.
\<close>

theorem valueToPlistValue_never_Wat:
  "valueToPlistValue env val \<noteq> Return v (Some (errorString ''Wat''))"
  using no_errorString_valueToPlistValue[of env val] by (simp add: no_errorString_iff)

text \<open>The theorem at a complex number, which the default case of the switch refuses.\<close>

theorem valueToPlistValue_never_Wat_witness:
  "valueToPlistValue no_marshalers (ValueOf (Predeclared reflect_Complex128) D_opaque) \<noteq>
     Return None (Some (errorString ''Wat''))"
  by (rule valueToPlistValue_never_Wat)

end
